theory Spec2Isabelle
  imports Main "HOL-Library.Word" "HOL-Library.Monad_Syntax"
begin

section \<open>Data model of \<^verbatim>\<open>oifile.c\<close>\<close>

text \<open>
  The structs of \<^verbatim>\<open>oifile.h\<close> and \<^verbatim>\<open>exchange.h\<close> are not part of the
  source at hand; each record below holds the fields that \<^verbatim>\<open>oifile.c\<close> reads or
  writes, under the names the code uses.  Every record is extensible, so the functions that
  copy a whole struct are stated on the record scheme and carry the fields not named here
  along unchanged.

  A C string is a \<open>string\<close> (the characters before the terminating NUL), a \<^verbatim>\<open>GList\<close>
  is a list (\<^verbatim>\<open>NULL\<close> is \<open>[]\<close>), a heap array is a list, \<^verbatim>\<open>int\<close> and
  \<^verbatim>\<open>long\<close> values are integers (the code only counts tables and compares revision
  numbers with them), and a floating-point cell is its bit pattern, of 64 bits for a
  \<^verbatim>\<open>double\<close> and of 32 bits for a \<^verbatim>\<open>float\<close>: the functions modelled here only
  move such cells with \<^verbatim>\<open>memcpy\<close>.
\<close>

type_synonym double = "64 word"
type_synonym float = "32 word"

record oi_header =
  origin :: string
  date_obs :: string
  telescop :: string
  instrume :: string
  insmode :: string
  object :: string
  referenc :: string
  prog_id :: string
  procsoft :: string
  obstech :: string

record target =
  target_id :: int
  target :: string

record oi_target =
  revision :: int
  ntarget :: int
  targ :: "target list"
  usecategory :: bool

record element =
  sta_index :: int

record oi_array =
  revision :: int
  arrname :: string
  nelement :: int
  elem :: "element list"

record oi_wavelength =
  revision :: int
  insname :: string
  nwave :: int
  eff_wave :: "float list"
  eff_band :: "float list"

record oi_corr =
  revision :: int
  corrname :: string
  ndata :: int
  ncorr :: int
  iindx :: "int list"
  jindx :: "int list"
  corr :: "double list"

record oi_polar =
  revision :: int
  arrname :: string

record oi_vis_record =
  visamp :: "double list"
  visamperr :: "double list"
  visphi :: "double list"
  visphierr :: "double list"
  flag :: "bool list"
  visrefmap :: "bool list"
  rvis :: "double list"
  rviserr :: "double list"
  ivis :: "double list"
  iviserr :: "double list"

record oi_vis =
  revision :: int
  date_obs :: string
  arrname :: string
  insname :: string
  corrname :: string
  numrec :: int
  nwave :: int
  usevisrefmap :: bool
  usecomplex :: bool
  record' :: "oi_vis_record list"

record oi_vis2_record =
  vis2data :: "double list"
  vis2err :: "double list"
  flag :: "bool list"

record oi_vis2 =
  revision :: int
  date_obs :: string
  arrname :: string
  insname :: string
  corrname :: string
  numrec :: int
  nwave :: int
  record' :: "oi_vis2_record list"

record oi_t3_record =
  t3amp :: "double list"
  t3amperr :: "double list"
  t3phi :: "double list"
  t3phierr :: "double list"
  flag :: "bool list"

record oi_t3 =
  revision :: int
  date_obs :: string
  arrname :: string
  insname :: string
  corrname :: string
  numrec :: int
  nwave :: int
  record' :: "oi_t3_record list"

record oi_spectrum_record =
  fluxdata :: "double list"
  fluxerr :: "double list"

record oi_spectrum =
  revision :: int
  date_obs :: string
  arrname :: string
  insname :: string
  corrname :: string
  numrec :: int
  nwave :: int
  record' :: "oi_spectrum_record list"

text \<open>
  A pointer to a table owned by one of the container's lists is the position of the table in
  that list; \<^verbatim>\<open>NULL\<close> is \<open>None\<close>.  A \<^verbatim>\<open>GHashTable\<close> keyed by string content
  (\<^verbatim>\<open>g_str_hash\<close>, \<^verbatim>\<open>g_str_equal\<close>) is a map from strings to such pointers; a key
  may be present with the value \<^verbatim>\<open>NULL\<close>.
\<close>

type_synonym ptr = "nat option"
type_synonym GHashTable = "string \<rightharpoonup> ptr"

record oi_fits =
  header :: oi_header
  targets :: oi_target
  numArray :: int
  numWavelength :: int
  numCorr :: int
  numPolar :: int
  numVis :: int
  numVis2 :: int
  numT3 :: int
  numSpectrum :: int
  arrayList :: "oi_array list"
  wavelengthList :: "oi_wavelength list"
  corrList :: "oi_corr list"
  polarList :: "oi_polar list"
  visList :: "oi_vis list"
  vis2List :: "oi_vis2 list"
  t3List :: "oi_t3 list"
  spectrumList :: "oi_spectrum list"
  arrayHash :: GHashTable
  wavelengthHash :: GHashTable
  corrHash :: GHashTable

abbreviation (input) TRUE :: bool where "TRUE \<equiv> True"
abbreviation (input) FALSE :: bool where "FALSE \<equiv> False"

section \<open>GLib hash tables\<close>

definition g_hash_table_new_full :: GHashTable where
  "g_hash_table_new_full = Map.empty"

text \<open>\<^verbatim>\<open>g_hash_table_lookup\<close> returns the stored value, or \<^verbatim>\<open>NULL\<close> for a missing key.\<close>

definition g_hash_table_lookup :: "GHashTable \<Rightarrow> string \<Rightarrow> ptr" where
  "g_hash_table_lookup h k = (case h k of None \<Rightarrow> None | Some v \<Rightarrow> v)"

definition g_hash_table_insert :: "GHashTable \<Rightarrow> string \<Rightarrow> ptr \<Rightarrow> GHashTable" where
  "g_hash_table_insert h k v = h(k \<mapsto> v)"

section \<open>Initialisation\<close>

definition init_oi_fits :: "oi_fits \<Rightarrow> oi_fits" where
  "init_oi_fits pOi = pOi
     \<lparr> header := (header pOi)
         \<lparr> origin := [], oi_header.date_obs := [], telescop := [], instrume := [],
           insmode := [], object := [], referenc := [], prog_id := [], procsoft := [],
           obstech := [] \<rparr>,
       targets := (targets pOi)
         \<lparr> oi_target.revision := 2, ntarget := 0, targ := [], usecategory := FALSE \<rparr>,
       numArray := 0, numWavelength := 0, numCorr := 0, numPolar := 0,
       numVis := 0, numVis2 := 0, numT3 := 0, numSpectrum := 0,
       arrayList := [], wavelengthList := [], corrList := [], polarList := [],
       visList := [], vis2List := [], t3List := [], spectrumList := [],
       arrayHash := g_hash_table_new_full,
       wavelengthHash := g_hash_table_new_full,
       corrHash := g_hash_table_new_full \<rparr>"

section \<open>Revision checks\<close>

text \<open>
  The macro \<^verbatim>\<open>RETURN_VAL_IF_BAD_TAB_REVISION\<close> walks a list and leaves the enclosing
  function with \<open>val\<close> at the first table whose revision differs from \<open>rev'\<close>.  The model
  yields \<open>Some val\<close> for that early return and \<open>None\<close> when the walk reaches the end of
  the list; \<open>rv\<close> reads the revision field of the table type.
\<close>

fun RETURN_VAL_IF_BAD_TAB_REVISION :: "'t list \<Rightarrow> ('t \<Rightarrow> int) \<Rightarrow> int \<Rightarrow> 'v \<Rightarrow> 'v option" where
  "RETURN_VAL_IF_BAD_TAB_REVISION [] rv rev' val = None"
| "RETURN_VAL_IF_BAD_TAB_REVISION (tab # link) rv rev' val =
     (if rv tab \<noteq> rev' then Some val else RETURN_VAL_IF_BAD_TAB_REVISION link rv rev' val)"

definition is_oi_fits_one :: "oi_fits \<Rightarrow> bool" where
  "is_oi_fits_one pOi =
     (if oi_target.revision (targets pOi) \<noteq> 1 then FALSE else
      case RETURN_VAL_IF_BAD_TAB_REVISION (arrayList pOi) oi_array.revision 1 FALSE of
        Some val \<Rightarrow> val | None \<Rightarrow>
      (case RETURN_VAL_IF_BAD_TAB_REVISION (wavelengthList pOi) oi_wavelength.revision 1 FALSE of
        Some val \<Rightarrow> val | None \<Rightarrow>
      (case RETURN_VAL_IF_BAD_TAB_REVISION (visList pOi) oi_vis.revision 1 FALSE of
        Some val \<Rightarrow> val | None \<Rightarrow>
      (case RETURN_VAL_IF_BAD_TAB_REVISION (vis2List pOi) oi_vis2.revision 1 FALSE of
        Some val \<Rightarrow> val | None \<Rightarrow>
      (case RETURN_VAL_IF_BAD_TAB_REVISION (t3List pOi) oi_t3.revision 1 FALSE of
        Some val \<Rightarrow> val | None \<Rightarrow>
      TRUE)))))"

definition is_oi_fits_two :: "oi_fits \<Rightarrow> bool" where
  "is_oi_fits_two pOi =
     (if oi_target.revision (targets pOi) \<noteq> 2 then FALSE else
      case RETURN_VAL_IF_BAD_TAB_REVISION (arrayList pOi) oi_array.revision 2 FALSE of
        Some val \<Rightarrow> val | None \<Rightarrow>
      (case RETURN_VAL_IF_BAD_TAB_REVISION (wavelengthList pOi) oi_wavelength.revision 2 FALSE of
        Some val \<Rightarrow> val | None \<Rightarrow>
      (case RETURN_VAL_IF_BAD_TAB_REVISION (corrList pOi) oi_corr.revision 1 FALSE of
        Some val \<Rightarrow> val | None \<Rightarrow>
      (case RETURN_VAL_IF_BAD_TAB_REVISION (polarList pOi) oi_polar.revision 1 FALSE of
        Some val \<Rightarrow> val | None \<Rightarrow>
      (case RETURN_VAL_IF_BAD_TAB_REVISION (visList pOi) oi_vis.revision 2 FALSE of
        Some val \<Rightarrow> val | None \<Rightarrow>
      (case RETURN_VAL_IF_BAD_TAB_REVISION (vis2List pOi) oi_vis2.revision 2 FALSE of
        Some val \<Rightarrow> val | None \<Rightarrow>
      (case RETURN_VAL_IF_BAD_TAB_REVISION (t3List pOi) oi_t3.revision 2 FALSE of
        Some val \<Rightarrow> val | None \<Rightarrow>
      (case RETURN_VAL_IF_BAD_TAB_REVISION (spectrumList pOi) oi_spectrum.revision 1 FALSE of
        Some val \<Rightarrow> val | None \<Rightarrow>
      TRUE))))))))"


section \<open>C library and GLib string functions\<close>

text \<open>
  \<^verbatim>\<open>FLEN_VALUE\<close> is the size cfitsio's \<^verbatim>\<open>fitsio.h\<close> gives a header value buffer,
  terminating NUL included.
\<close>

definition FLEN_VALUE :: nat where
  "FLEN_VALUE = 71"

definition strlen :: "string \<Rightarrow> nat" where
  "strlen s = length s"

text \<open>
  \<^verbatim>\<open>g_strlcpy (dest, src, dest_size)\<close> stores at most \<open>dest_size - 1\<close> characters of
  \<open>src\<close> and a NUL; \<^verbatim>\<open>g_snprintf\<close> truncates its output the same way.
\<close>

definition g_strlcpy :: "string \<Rightarrow> nat \<Rightarrow> string" where
  "g_strlcpy src dest_size = take (dest_size - 1) src"

definition isspace :: "char \<Rightarrow> bool" where
  "isspace c = (c \<in> set [CHR '' '', CHR 0x09, CHR 0x0A, CHR 0x0B, CHR 0x0C, CHR 0x0D])"

definition isdigit :: "char \<Rightarrow> bool" where
  "isdigit c = (c \<in> set ''0123456789'')"

definition digit_val :: "char \<Rightarrow> int" where
  "digit_val c = int (of_char c) - 48"

text \<open>Value of a string of decimal digits, as \<^verbatim>\<open>strtol\<close> reads it in base 10.\<close>

definition strtol_digits :: "string \<Rightarrow> int" where
  "strtol_digits ds = foldl (\<lambda>acc c. 10 * acc + digit_val c) 0 ds"

text \<open>
  One \<^verbatim>\<open>%<width>ld\<close> directive of \<^verbatim>\<open>sscanf\<close>: white space is skipped, then an
  optional sign and decimal digits are read, at most \<open>width\<close> characters in all (the sign
  counts).  The directive fails when no digit was read.  The result is the value and the rest
  of the input.
\<close>

definition scan_ld :: "nat \<Rightarrow> string \<Rightarrow> (int \<times> string) option" where
  "scan_ld width s =
     (let s1 = dropWhile isspace s;
          signed = (s1 \<noteq> [] \<and> hd s1 \<in> set ''+-'' \<and> 0 < width);
          s2 = (if signed then tl s1 else s1);
          w = (if signed then width - 1 else width);
          ds = takeWhile isdigit (take w s2)
      in if ds = [] then None
         else Some ((if signed \<and> hd s1 = CHR ''-'' then - strtol_digits ds else strtol_digits ds),
                    drop (length ds) s2))"

text \<open>A literal character of the format must be the next character of the input.\<close>

definition scan_lit :: "char \<Rightarrow> string \<Rightarrow> string option" where
  "scan_lit c s = (case s of [] \<Rightarrow> None | x # xs \<Rightarrow> if x = c then Some xs else None)"

text \<open>
  \<^verbatim>\<open>sscanf (s, "%4ld-%2ld-%2ld", &year, &month, &day) == 3\<close>: the three values when all
  three conversions succeed, \<open>None\<close> when \<^verbatim>\<open>sscanf\<close> returns anything else.
\<close>

definition sscanf_date :: "string \<Rightarrow> (int \<times> int \<times> int) option" where
  "sscanf_date s = do {
     (year, s1) \<leftarrow> scan_ld 4 s;
     s2 \<leftarrow> scan_lit CHR ''-'' s1;
     (month, s3) \<leftarrow> scan_ld 2 s2;
     s4 \<leftarrow> scan_lit CHR ''-'' s3;
     (day, s5) \<leftarrow> scan_ld 2 s4;
     Some (year, month, day)
   }"

text \<open>Decimal digits of a natural number, most significant first.\<close>

fun digits :: "nat \<Rightarrow> string" where
  "digits n = (if n < 10 then [char_of (48 + n)] else digits (n div 10) @ [char_of (48 + n mod 10)])"

declare digits.simps [simp del]

text \<open>
  \<^verbatim>\<open>%<width>ld\<close> of \<^verbatim>\<open>printf\<close>, padded on the left with spaces, and
  \<^verbatim>\<open>%0<width>ld\<close>, padded with zeros after the sign.
\<close>

definition printf_ld :: "nat \<Rightarrow> int \<Rightarrow> string" where
  "printf_ld width n =
     (let body = (if n < 0 then ''-'' else []) @ digits (nat \<bar>n\<bar>)
      in replicate (width - length body) CHR '' '' @ body)"

definition printf_0ld :: "nat \<Rightarrow> int \<Rightarrow> string" where
  "printf_0ld width n =
     (let sign = (if n < 0 then ''-'' else []); ds = digits (nat \<bar>n\<bar>)
      in sign @ replicate (width - length sign - length ds) CHR ''0'' @ ds)"

text \<open>\<^verbatim>\<open>g_snprintf (buf, n, "%4ld-%02ld-%02ld", year, month, day)\<close>.\<close>

definition g_snprintf_date :: "nat \<Rightarrow> int \<Rightarrow> int \<Rightarrow> int \<Rightarrow> string" where
  "g_snprintf_date n year month day =
     take (n - 1) (printf_ld 4 year @ ''-'' @ printf_0ld 2 month @ ''-'' @ printf_0ld 2 day)"

section \<open>Calendar conversions\<close>

text \<open>
  \<^verbatim>\<open>date2mjd\<close> and \<^verbatim>\<open>mjd2date\<close> are declared in \<^verbatim>\<open>datemjd.h\<close>; their bodies are not
  part of \<^verbatim>\<open>oifile.c\<close>.  The functions of \<^verbatim>\<open>oifile.c\<close> that call them take them as
  the parameters \<open>date2mjd\<close> and \<open>mjd2date\<close>, and what is proved about those functions holds
  for every pair of conversions.
\<close>

type_synonym date2mjd_fn = "int \<Rightarrow> int \<Rightarrow> int \<Rightarrow> int"
type_synonym mjd2date_fn = "int \<Rightarrow> int \<times> int \<times> int"

text \<open>
  Modelled from the spec: the bodies of \<^verbatim>\<open>date2mjd\<close> and \<^verbatim>\<open>mjd2date\<close>
  (\<^verbatim>\<open>datemjd.c\<close>) are missing.  The specification calls the result a day-count epoch, the
  Modified Julian Date: the number of days since 1858-11-17 in the Gregorian calendar.  The
  two definitions compute it, and its inverse, for dates of the common era; they are used
  for concrete examples only.
\<close>

definition gregorian_date2mjd :: date2mjd_fn where
  "gregorian_date2mjd year month day =
     (let a = (14 - month) div 12; y = year + 4800 - a; m = month + 12 * a - 3
      in day + (153 * m + 2) div 5 + 365 * y + y div 4 - y div 100 + y div 400
         - 32045 - 2400001)"

definition gregorian_mjd2date :: mjd2date_fn where
  "gregorian_mjd2date mjd =
     (let J = mjd + 2400001;
          f = J + 1401 + (((4 * J + 274277) div 146097) * 3) div 4 - 38;
          e = 4 * f + 3;
          g = (e mod 1461) div 4;
          h = 5 * g + 2;
          day = (h mod 153) div 5 + 1;
          month = (h div 153 + 2) mod 12 + 1;
          year = e div 1461 - 4716 + (14 - month) div 12
      in (year, month, day))"

section \<open>Earliest observation date\<close>

text \<open>
  Each of the four loops of \<^verbatim>\<open>min_mjd\<close> walks one list of measurement tables; \<open>dobs\<close>
  reads the \<^verbatim>\<open>date_obs\<close> field of the table type.  The second operand of
  \<^verbatim>\<open>&&\<close> is evaluated only when \<^verbatim>\<open>sscanf\<close> returned 3.
\<close>

fun min_mjd_loop :: "date2mjd_fn \<Rightarrow> ('t \<Rightarrow> string) \<Rightarrow> 't list \<Rightarrow> int \<Rightarrow> int" where
  "min_mjd_loop date2mjd dobs [] minMjd = minMjd"
| "min_mjd_loop date2mjd dobs (tab # link) minMjd =
     min_mjd_loop date2mjd dobs link
       (case sscanf_date (dobs tab) of
          None \<Rightarrow> minMjd
        | Some (year, month, day) \<Rightarrow>
            (let mjd = date2mjd year month day in if mjd < minMjd then mjd else minMjd))"

definition min_mjd :: "date2mjd_fn \<Rightarrow> oi_fits \<Rightarrow> int" where
  "min_mjd date2mjd pOi =
     (let minMjd = 100000;
          minMjd = min_mjd_loop date2mjd oi_vis.date_obs (visList pOi) minMjd;
          minMjd = min_mjd_loop date2mjd oi_vis2.date_obs (vis2List pOi) minMjd;
          minMjd = min_mjd_loop date2mjd oi_t3.date_obs (t3List pOi) minMjd;
          minMjd = min_mjd_loop date2mjd oi_spectrum.date_obs (spectrumList pOi) minMjd
      in minMjd)"

section \<open>Primary header from table contents\<close>

text \<open>
  \<^verbatim>\<open>set_oi_header\<close> trusts the counters: with \<^verbatim>\<open>numArray == 1\<close> it dereferences
  \<^verbatim>\<open>pOi->arrayList\<close>, and with \<^verbatim>\<open>ntarget == 1\<close> it reads \<^verbatim>\<open>targ[0]\<close>.  Where the
  list or the array is empty the C program has no defined behaviour; the model returns
  \<open>None\<close> there.
\<close>

definition multiple :: string where
  "multiple = ''MULTIPLE''"

definition set_oi_header :: "date2mjd_fn \<Rightarrow> mjd2date_fn \<Rightarrow> oi_fits \<Rightarrow> oi_fits option" where
  "set_oi_header date2mjd mjd2date pOi = do {
     telescop' \<leftarrow>
       (if numArray pOi = 0 then Some (g_strlcpy ''UNKNOWN'' FLEN_VALUE)
        else if numArray pOi = 1 then
          (case arrayList pOi of
             [] \<Rightarrow> None
           | pArray # _ \<Rightarrow> Some (g_strlcpy (oi_array.arrname pArray) FLEN_VALUE))
        else Some (g_strlcpy multiple FLEN_VALUE));
     instrume' \<leftarrow>
       (if numWavelength pOi = 1 then
          (case wavelengthList pOi of
             [] \<Rightarrow> None
           | pWave # _ \<Rightarrow> Some (g_strlcpy (oi_wavelength.insname pWave) FLEN_VALUE))
        else Some (g_strlcpy multiple FLEN_VALUE));
     object' \<leftarrow>
       (if ntarget (targets pOi) = 1 then
          (case targ (targets pOi) of
             [] \<Rightarrow> None
           | t # _ \<Rightarrow> Some (g_strlcpy (target t) FLEN_VALUE))
        else Some (g_strlcpy multiple FLEN_VALUE));
     (year, month, day) \<leftarrow> Some (mjd2date (min_mjd date2mjd pOi));
     Some (pOi\<lparr> header := (header pOi)
             \<lparr> telescop := telescop', instrume := instrume', object := object',
               oi_header.date_obs := g_snprintf_date FLEN_VALUE year month day \<rparr> \<rparr>)
   }"


section \<open>Name lookup\<close>

text \<open>
  The three \<^verbatim>\<open>find_oi_*\<close> functions walk a list and return the first table whose name
  compares equal under \<^verbatim>\<open>strcmp\<close>, or \<^verbatim>\<open>NULL\<close> after a warning.  \<open>find_link\<close> is
  that walk; \<open>i\<close> is the position of the current link.
\<close>

fun find_link :: "('t \<Rightarrow> string) \<Rightarrow> 't list \<Rightarrow> string \<Rightarrow> nat \<Rightarrow> ptr" where
  "find_link name [] key i = None"
| "find_link name (tab # link) key i =
     (if name tab = key then Some i else find_link name link key (Suc i))"

definition find_oi_array :: "oi_fits \<Rightarrow> string \<Rightarrow> ptr" where
  "find_oi_array pOi arrname' = find_link oi_array.arrname (arrayList pOi) arrname' 0"

definition find_oi_wavelength :: "oi_fits \<Rightarrow> string \<Rightarrow> ptr" where
  "find_oi_wavelength pOi insname' = find_link oi_wavelength.insname (wavelengthList pOi) insname' 0"

definition find_oi_corr :: "oi_fits \<Rightarrow> string \<Rightarrow> ptr" where
  "find_oi_corr pOi corrname' = find_link oi_corr.corrname (corrList pOi) corrname' 0"

definition oi_fits_lookup_array :: "oi_fits \<Rightarrow> string \<Rightarrow> ptr" where
  "oi_fits_lookup_array pOi arrname' = g_hash_table_lookup (arrayHash pOi) arrname'"

definition oi_fits_lookup_wavelength :: "oi_fits \<Rightarrow> string \<Rightarrow> ptr" where
  "oi_fits_lookup_wavelength pOi insname' = g_hash_table_lookup (wavelengthHash pOi) insname'"

definition oi_fits_lookup_corr :: "oi_fits \<Rightarrow> string \<Rightarrow> ptr" where
  "oi_fits_lookup_corr pOi corrname' = g_hash_table_lookup (corrHash pOi) corrname'"

section \<open>Reading a file\<close>

text \<open>
  Modelled from the spec: the table codec (\<^verbatim>\<open>read_oi_header\<close>, \<^verbatim>\<open>read_oi_target\<close>, the
  \<^verbatim>\<open>read_next_oi_*\<close> functions and the cfitsio calls) is missing.  The specification
  gives its interface: a file is opened, and for each table type the codec hands over the
  next table of that type until it reports a status, the end of the file or an error.  A
  \<open>fits_file\<close> records what the codec delivers for one file: the status of opening it, the
  primary header and the target table with the status after reading both, for each table
  type the tables in file order with the status that ends the pass, and the status of
  closing the file.
\<close>

record fits_file =
  open_status :: int
  file_header :: oi_header
  file_targets :: oi_target
  target_status :: int
  array_tabs :: "oi_array list"
  array_stop :: int
  wavelength_tabs :: "oi_wavelength list"
  wavelength_stop :: int
  corr_tabs :: "oi_corr list"
  corr_stop :: int
  polar_tabs :: "oi_polar list"
  polar_stop :: int
  vis_tabs :: "oi_vis list"
  vis_stop :: int
  vis2_tabs :: "oi_vis2 list"
  vis2_stop :: int
  t3_tabs :: "oi_t3 list"
  t3_stop :: int
  spectrum_tabs :: "oi_spectrum list"
  spectrum_stop :: int
  close_status :: int

text \<open>cfitsio's status for a read past the last table.\<close>

definition END_OF_FILE :: int where
  "END_OF_FILE = 107"

definition g_list_append :: "'a list \<Rightarrow> 'a \<Rightarrow> 'a list" where
  "g_list_append list data = list @ [data]"

text \<open>
  The measurement passes of \<^verbatim>\<open>read_oi_fits\<close> repeat three statements that enter a name
  in a hash table when a lookup of the name yields \<^verbatim>\<open>NULL\<close>.  The array and correlation
  names are entered only when they are not empty; the instrument name is always entered.
\<close>

definition hash_array :: "string \<Rightarrow> oi_fits \<Rightarrow> oi_fits" where
  "hash_array arrname' pOi =
     (if strlen arrname' > 0 then
        (if g_hash_table_lookup (arrayHash pOi) arrname' = None
         then pOi\<lparr>arrayHash :=
                g_hash_table_insert (arrayHash pOi) arrname' (find_oi_array pOi arrname')\<rparr>
         else pOi)
      else pOi)"

definition hash_wavelength :: "string \<Rightarrow> oi_fits \<Rightarrow> oi_fits" where
  "hash_wavelength insname' pOi =
     (if g_hash_table_lookup (wavelengthHash pOi) insname' = None
      then pOi\<lparr>wavelengthHash :=
             g_hash_table_insert (wavelengthHash pOi) insname' (find_oi_wavelength pOi insname')\<rparr>
      else pOi)"

definition hash_corr :: "string \<Rightarrow> oi_fits \<Rightarrow> oi_fits" where
  "hash_corr corrname' pOi =
     (if strlen corrname' > 0 then
        (if g_hash_table_lookup (corrHash pOi) corrname' = None
         then pOi\<lparr>corrHash :=
                g_hash_table_insert (corrHash pOi) corrname' (find_oi_corr pOi corrname')\<rparr>
         else pOi)
      else pOi)"

text \<open>
  One function for each \<^verbatim>\<open>while (1==1)\<close> loop: the argument list holds the tables the
  codec returns before it reports the status that ends the loop.
\<close>

fun read_all_oi_array :: "oi_array list \<Rightarrow> oi_fits \<Rightarrow> oi_fits" where
  "read_all_oi_array [] pOi = pOi"
| "read_all_oi_array (pArray # rest) pOi =
     read_all_oi_array rest
       (pOi\<lparr>arrayList := g_list_append (arrayList pOi) pArray, numArray := numArray pOi + 1\<rparr>)"

fun read_all_oi_wavelength :: "oi_wavelength list \<Rightarrow> oi_fits \<Rightarrow> oi_fits" where
  "read_all_oi_wavelength [] pOi = pOi"
| "read_all_oi_wavelength (pWave # rest) pOi =
     read_all_oi_wavelength rest
       (pOi\<lparr>wavelengthList := g_list_append (wavelengthList pOi) pWave,
            numWavelength := numWavelength pOi + 1\<rparr>)"

fun read_all_oi_corr :: "oi_corr list \<Rightarrow> oi_fits \<Rightarrow> oi_fits" where
  "read_all_oi_corr [] pOi = pOi"
| "read_all_oi_corr (pCorr # rest) pOi =
     read_all_oi_corr rest
       (pOi\<lparr>corrList := g_list_append (corrList pOi) pCorr, numCorr := numCorr pOi + 1\<rparr>)"

fun read_all_oi_polar :: "oi_polar list \<Rightarrow> oi_fits \<Rightarrow> oi_fits" where
  "read_all_oi_polar [] pOi = pOi"
| "read_all_oi_polar (pPolar # rest) pOi =
     read_all_oi_polar rest
       (pOi\<lparr>polarList := g_list_append (polarList pOi) pPolar, numPolar := numPolar pOi + 1\<rparr>)"

fun read_all_oi_vis :: "oi_vis list \<Rightarrow> oi_fits \<Rightarrow> oi_fits" where
  "read_all_oi_vis [] pOi = pOi"
| "read_all_oi_vis (pVis # rest) pOi =
     read_all_oi_vis rest
       (hash_corr (oi_vis.corrname pVis)
         (hash_wavelength (oi_vis.insname pVis)
           (hash_array (oi_vis.arrname pVis)
             (pOi\<lparr>visList := g_list_append (visList pOi) pVis, numVis := numVis pOi + 1\<rparr>))))"

fun read_all_oi_vis2 :: "oi_vis2 list \<Rightarrow> oi_fits \<Rightarrow> oi_fits" where
  "read_all_oi_vis2 [] pOi = pOi"
| "read_all_oi_vis2 (pVis2 # rest) pOi =
     read_all_oi_vis2 rest
       (hash_corr (oi_vis2.corrname pVis2)
         (hash_wavelength (oi_vis2.insname pVis2)
           (hash_array (oi_vis2.arrname pVis2)
             (pOi\<lparr>vis2List := g_list_append (vis2List pOi) pVis2,
                  numVis2 := numVis2 pOi + 1\<rparr>))))"

fun read_all_oi_t3 :: "oi_t3 list \<Rightarrow> oi_fits \<Rightarrow> oi_fits" where
  "read_all_oi_t3 [] pOi = pOi"
| "read_all_oi_t3 (pT3 # rest) pOi =
     read_all_oi_t3 rest
       (hash_corr (oi_t3.corrname pT3)
         (hash_wavelength (oi_t3.insname pT3)
           (hash_array (oi_t3.arrname pT3)
             (pOi\<lparr>t3List := g_list_append (t3List pOi) pT3, numT3 := numT3 pOi + 1\<rparr>))))"

fun read_all_oi_spectrum :: "oi_spectrum list \<Rightarrow> oi_fits \<Rightarrow> oi_fits" where
  "read_all_oi_spectrum [] pOi = pOi"
| "read_all_oi_spectrum (pSpectrum # rest) pOi =
     read_all_oi_spectrum rest
       (hash_wavelength (oi_spectrum.insname pSpectrum)
         (hash_array (oi_spectrum.arrname pSpectrum)
           (pOi\<lparr>spectrumList := g_list_append (spectrumList pOi) pSpectrum,
                numSpectrum := numSpectrum pOi + 1\<rparr>)))"

text \<open>
  \<^verbatim>\<open>read_oi_fits\<close> returns the status and leaves the container as the second component
  shows it; \<open>status\<close> is the value of \<^verbatim>\<open>*pStatus\<close> on entry.  \<open>None\<close> stands for the
  undefined behaviour of \<^verbatim>\<open>set_oi_header\<close>.
\<close>

definition read_oi_fits ::
  "date2mjd_fn \<Rightarrow> mjd2date_fn \<Rightarrow> fits_file \<Rightarrow> oi_fits \<Rightarrow> int \<Rightarrow> (int \<times> oi_fits) option" where
  "read_oi_fits date2mjd mjd2date f pOi status =
     (if status \<noteq> 0 then Some (status, pOi)
      else if open_status f \<noteq> 0 then Some (open_status f, pOi)
      else
        let pOi = pOi\<lparr> arrayHash := g_hash_table_new_full,
                       wavelengthHash := g_hash_table_new_full,
                       corrHash := g_hash_table_new_full,
                       arrayList := [], wavelengthList := [], corrList := [], polarList := [],
                       visList := [], vis2List := [], t3List := [], spectrumList := [] \<rparr>;
            pOi = pOi\<lparr> header := file_header f, targets := file_targets f \<rparr>
        in if target_status f \<noteq> 0 then Some (target_status f, pOi)
      else
        let pOi = read_all_oi_array (array_tabs f) (pOi\<lparr>numArray := 0\<rparr>)
        in if array_stop f \<noteq> END_OF_FILE then Some (array_stop f, pOi)
      else
        let pOi = read_all_oi_wavelength (wavelength_tabs f) (pOi\<lparr>numWavelength := 0\<rparr>)
        in if wavelength_stop f \<noteq> END_OF_FILE then Some (wavelength_stop f, pOi)
      else
        let pOi = read_all_oi_corr (corr_tabs f) (pOi\<lparr>numCorr := 0\<rparr>)
        in if corr_stop f \<noteq> END_OF_FILE then Some (corr_stop f, pOi)
      else
        let pOi = read_all_oi_polar (polar_tabs f) (pOi\<lparr>numPolar := 0\<rparr>)
        in if polar_stop f \<noteq> END_OF_FILE then Some (polar_stop f, pOi)
      else
        let pOi = read_all_oi_vis (vis_tabs f) (pOi\<lparr>numVis := 0\<rparr>)
        in if vis_stop f \<noteq> END_OF_FILE then Some (vis_stop f, pOi)
      else
        let pOi = read_all_oi_vis2 (vis2_tabs f) (pOi\<lparr>numVis2 := 0\<rparr>)
        in if vis2_stop f \<noteq> END_OF_FILE then Some (vis2_stop f, pOi)
      else
        let pOi = read_all_oi_t3 (t3_tabs f) (pOi\<lparr>numT3 := 0\<rparr>)
        in if t3_stop f \<noteq> END_OF_FILE then Some (t3_stop f, pOi)
      else
        let pOi = read_all_oi_spectrum (spectrum_tabs f) (pOi\<lparr>numSpectrum := 0\<rparr>)
        in if spectrum_stop f \<noteq> END_OF_FILE then Some (spectrum_stop f, pOi)
      else do {
        pOi \<leftarrow> (if is_oi_fits_one pOi then set_oi_header date2mjd mjd2date pOi else Some pOi);
        Some (close_status f, pOi)
      })"

section \<open>Writing a file\<close>

text \<open>
  \<^verbatim>\<open>write_oi_fits\<close> drives the table codec; what it decides itself is which codec
  function is called on which table, in which order and with which \<^verbatim>\<open>extver\<close>.  The
  model returns that sequence of calls.  The codec functions are not part of the source;
  after the file has been created no status is tested between the calls, so the sequence
  does not depend on what they return.
\<close>

datatype fits_call =
    fits_create_file string
  | write_oi_header oi_header
  | write_oi_target oi_target
  | write_oi_array oi_array int
  | write_oi_wavelength oi_wavelength int
  | write_oi_corr oi_corr int
  | write_oi_polar oi_polar int
  | write_oi_vis oi_vis int
  | write_oi_vis2 oi_vis2 int
  | write_oi_t3 oi_t3 int
  | write_oi_spectrum oi_spectrum int
  | fits_close_file

text \<open>The loop of the macro \<^verbatim>\<open>WRITE_OI_LIST\<close>, entered with \<^verbatim>\<open>extver = 1\<close>.\<close>

fun WRITE_OI_LIST_loop :: "'t list \<Rightarrow> ('t \<Rightarrow> int \<Rightarrow> fits_call) \<Rightarrow> int \<Rightarrow> fits_call list" where
  "WRITE_OI_LIST_loop [] write_func extver = []"
| "WRITE_OI_LIST_loop (tab # link) write_func extver =
     write_func tab extver # WRITE_OI_LIST_loop link write_func (extver + 1)"

definition WRITE_OI_LIST :: "'t list \<Rightarrow> ('t \<Rightarrow> int \<Rightarrow> fits_call) \<Rightarrow> fits_call list" where
  "WRITE_OI_LIST list write_func = WRITE_OI_LIST_loop list write_func 1"

text \<open>
  \<open>status\<close> is \<^verbatim>\<open>*pStatus\<close> on entry and \<open>create_status\<close> the status
  \<^verbatim>\<open>fits_create_file\<close> reports.
\<close>

definition write_oi_fits :: "string \<Rightarrow> oi_fits \<Rightarrow> int \<Rightarrow> int \<Rightarrow> fits_call list" where
  "write_oi_fits filename oi status create_status =
     (if status \<noteq> 0 then []
      else if create_status \<noteq> 0 then [fits_create_file filename]
      else [fits_create_file filename, write_oi_header (header oi), write_oi_target (targets oi)]
         @ WRITE_OI_LIST (arrayList oi) write_oi_array
         @ WRITE_OI_LIST (wavelengthList oi) write_oi_wavelength
         @ WRITE_OI_LIST (corrList oi) write_oi_corr
         @ WRITE_OI_LIST (polarList oi) write_oi_polar
         @ WRITE_OI_LIST (visList oi) write_oi_vis
         @ WRITE_OI_LIST (vis2List oi) write_oi_vis2
         @ WRITE_OI_LIST (t3List oi) write_oi_t3
         @ WRITE_OI_LIST (spectrumList oi) write_oi_spectrum
         @ [fits_close_file])"


section \<open>Deep copies\<close>

text \<open>
  Modelled from the spec: the macro \<^verbatim>\<open>MEMDUP\<close> is defined in a header that is missing.
  The specification has every nested array freshly allocated and copied element by element:
  \<^verbatim>\<open>MEMDUP (dest, src, n * sizeof (src[0]))\<close> makes \<open>dest\<close> a new array holding the first
  \<open>n\<close> cells of \<open>src\<close>.  A negative \<open>n\<close> turns into a huge unsigned size, and an \<open>n\<close>
  beyond the cells of \<open>src\<close> reads past the source array; the C program has no defined
  behaviour there and the model returns \<open>None\<close>.  \<^verbatim>\<open>MEMDUP (pOutTab, pInTab, sizeof
  (*pInTab))\<close> copies the struct itself: the copy starts with every field of the source,
  pointers included.
\<close>

definition MEMDUP :: "'a list \<Rightarrow> int \<Rightarrow> 'a list option" where
  "MEMDUP src n = (if 0 \<le> n \<and> n \<le> int (length src) then Some (take (nat n) src) else None)"

definition INT_MAX :: int where
  "INT_MAX = 2147483647"

definition dup_oi_target :: "'a oi_target_scheme \<Rightarrow> 'a oi_target_scheme option" where
  "dup_oi_target pInTab = do {
     targ' \<leftarrow> MEMDUP (targ pInTab) (ntarget pInTab);
     Some (pInTab\<lparr>targ := targ'\<rparr>)
   }"

definition dup_oi_array :: "'a oi_array_scheme \<Rightarrow> 'a oi_array_scheme option" where
  "dup_oi_array pInTab = do {
     elem' \<leftarrow> MEMDUP (elem pInTab) (nelement pInTab);
     Some (pInTab\<lparr>elem := elem'\<rparr>)
   }"

definition dup_oi_wavelength :: "'a oi_wavelength_scheme \<Rightarrow> 'a oi_wavelength_scheme option" where
  "dup_oi_wavelength pInTab = do {
     eff_wave' \<leftarrow> MEMDUP (eff_wave pInTab) (oi_wavelength.nwave pInTab);
     eff_band' \<leftarrow> MEMDUP (eff_band pInTab) (oi_wavelength.nwave pInTab);
     Some (pInTab\<lparr>eff_wave := eff_wave', eff_band := eff_band'\<rparr>)
   }"

definition dup_oi_corr :: "'a oi_corr_scheme \<Rightarrow> 'a oi_corr_scheme option" where
  "dup_oi_corr pInTab = do {
     iindx' \<leftarrow> MEMDUP (iindx pInTab) (ncorr pInTab);
     jindx' \<leftarrow> MEMDUP (jindx pInTab) (ncorr pInTab);
     corr' \<leftarrow> MEMDUP (corr pInTab) (ncorr pInTab);
     Some (pInTab\<lparr>iindx := iindx', jindx := jindx', corr := corr'\<rparr>)
   }"

text \<open>
  The body of the \<^verbatim>\<open>for\<close> loop of \<^verbatim>\<open>dup_oi_vis\<close> for one record.  The output record
  starts as a copy of the input record, so an array that is not duplicated keeps the
  pointer, and thereby the cells, of the source.  The product \<^verbatim>\<open>nwave*nwave\<close> is
  computed in \<^verbatim>\<open>int\<close>.  The last \<^verbatim>\<open>MEMDUP\<close> reads \<^verbatim>\<open>pInRec->rviserr\<close>, as the
  source does.
\<close>

definition dup_oi_vis_record :: "'a oi_vis_scheme \<Rightarrow> oi_vis_record \<Rightarrow> oi_vis_record option" where
  "dup_oi_vis_record pInTab pInRec = do {
     visamp' \<leftarrow> MEMDUP (visamp pInRec) (oi_vis.nwave pInTab);
     visamperr' \<leftarrow> MEMDUP (visamperr pInRec) (oi_vis.nwave pInTab);
     visphi' \<leftarrow> MEMDUP (visphi pInRec) (oi_vis.nwave pInTab);
     visphierr' \<leftarrow> MEMDUP (visphierr pInRec) (oi_vis.nwave pInTab);
     flag' \<leftarrow> MEMDUP (oi_vis_record.flag pInRec) (oi_vis.nwave pInTab);
     pOutRec \<leftarrow> Some (pInRec\<lparr>visamp := visamp', visamperr := visamperr', visphi := visphi',
                              visphierr := visphierr', oi_vis_record.flag := flag'\<rparr>);
     pOutRec \<leftarrow>
       (if usevisrefmap pInTab then
          (if oi_vis.nwave pInTab * oi_vis.nwave pInTab > INT_MAX then None
           else do {
             visrefmap' \<leftarrow> MEMDUP (visrefmap pInRec) (oi_vis.nwave pInTab * oi_vis.nwave pInTab);
             Some (pOutRec\<lparr>visrefmap := visrefmap'\<rparr>)
           })
        else Some pOutRec);
     (if usecomplex pInTab then do {
        rvis' \<leftarrow> MEMDUP (rvis pInRec) (oi_vis.nwave pInTab);
        rviserr' \<leftarrow> MEMDUP (rviserr pInRec) (oi_vis.nwave pInTab);
        ivis' \<leftarrow> MEMDUP (ivis pInRec) (oi_vis.nwave pInTab);
        iviserr' \<leftarrow> MEMDUP (rviserr pInRec) (oi_vis.nwave pInTab);
        Some (pOutRec\<lparr>rvis := rvis', rviserr := rviserr', ivis := ivis', iviserr := iviserr'\<rparr>)
      }
      else Some pOutRec)
   }"

text \<open>
  The \<^verbatim>\<open>for\<close> loops run over the \<^verbatim>\<open>numrec\<close> records that the preceding \<^verbatim>\<open>MEMDUP\<close>
  has copied; \<open>dup_records\<close> applies the loop body to each of them in turn.
\<close>

fun dup_records :: "('r \<Rightarrow> 'r option) \<Rightarrow> 'r list \<Rightarrow> 'r list option" where
  "dup_records body [] = Some []"
| "dup_records body (pInRec # recs) = do {
     pOutRec \<leftarrow> body pInRec;
     out \<leftarrow> dup_records body recs;
     Some (pOutRec # out)
   }"

definition dup_oi_vis :: "'a oi_vis_scheme \<Rightarrow> 'a oi_vis_scheme option" where
  "dup_oi_vis pInTab = do {
     recs \<leftarrow> MEMDUP (oi_vis.record' pInTab) (oi_vis.numrec pInTab);
     recs' \<leftarrow> dup_records (dup_oi_vis_record pInTab) recs;
     Some (pInTab\<lparr>oi_vis.record' := recs'\<rparr>)
   }"

definition dup_oi_vis2_record :: "'a oi_vis2_scheme \<Rightarrow> oi_vis2_record \<Rightarrow> oi_vis2_record option" where
  "dup_oi_vis2_record pInTab pInRec = do {
     vis2data' \<leftarrow> MEMDUP (vis2data pInRec) (oi_vis2.nwave pInTab);
     vis2err' \<leftarrow> MEMDUP (vis2err pInRec) (oi_vis2.nwave pInTab);
     flag' \<leftarrow> MEMDUP (oi_vis2_record.flag pInRec) (oi_vis2.nwave pInTab);
     Some (pInRec\<lparr>vis2data := vis2data', vis2err := vis2err', oi_vis2_record.flag := flag'\<rparr>)
   }"

definition dup_oi_vis2 :: "'a oi_vis2_scheme \<Rightarrow> 'a oi_vis2_scheme option" where
  "dup_oi_vis2 pInTab = do {
     recs \<leftarrow> MEMDUP (oi_vis2.record' pInTab) (oi_vis2.numrec pInTab);
     recs' \<leftarrow> dup_records (dup_oi_vis2_record pInTab) recs;
     Some (pInTab\<lparr>oi_vis2.record' := recs'\<rparr>)
   }"

definition dup_oi_t3_record :: "'a oi_t3_scheme \<Rightarrow> oi_t3_record \<Rightarrow> oi_t3_record option" where
  "dup_oi_t3_record pInTab pInRec = do {
     t3amp' \<leftarrow> MEMDUP (t3amp pInRec) (oi_t3.nwave pInTab);
     t3amperr' \<leftarrow> MEMDUP (t3amperr pInRec) (oi_t3.nwave pInTab);
     t3phi' \<leftarrow> MEMDUP (t3phi pInRec) (oi_t3.nwave pInTab);
     t3phierr' \<leftarrow> MEMDUP (t3phierr pInRec) (oi_t3.nwave pInTab);
     flag' \<leftarrow> MEMDUP (oi_t3_record.flag pInRec) (oi_t3.nwave pInTab);
     Some (pInRec\<lparr>t3amp := t3amp', t3amperr := t3amperr', t3phi := t3phi',
                  t3phierr := t3phierr', oi_t3_record.flag := flag'\<rparr>)
   }"

definition dup_oi_t3 :: "'a oi_t3_scheme \<Rightarrow> 'a oi_t3_scheme option" where
  "dup_oi_t3 pInTab = do {
     recs \<leftarrow> MEMDUP (oi_t3.record' pInTab) (oi_t3.numrec pInTab);
     recs' \<leftarrow> dup_records (dup_oi_t3_record pInTab) recs;
     Some (pInTab\<lparr>oi_t3.record' := recs'\<rparr>)
   }"

definition dup_oi_spectrum_record ::
  "'a oi_spectrum_scheme \<Rightarrow> oi_spectrum_record \<Rightarrow> oi_spectrum_record option" where
  "dup_oi_spectrum_record pInTab pInRec = do {
     fluxdata' \<leftarrow> MEMDUP (fluxdata pInRec) (oi_spectrum.nwave pInTab);
     fluxerr' \<leftarrow> MEMDUP (fluxerr pInRec) (oi_spectrum.nwave pInTab);
     Some (pInRec\<lparr>fluxdata := fluxdata', fluxerr := fluxerr'\<rparr>)
   }"

definition dup_oi_spectrum :: "'a oi_spectrum_scheme \<Rightarrow> 'a oi_spectrum_scheme option" where
  "dup_oi_spectrum pInTab = do {
     recs \<leftarrow> MEMDUP (oi_spectrum.record' pInTab) (oi_spectrum.numrec pInTab);
     recs' \<leftarrow> dup_records (dup_oi_spectrum_record pInTab) recs;
     Some (pInTab\<lparr>oi_spectrum.record' := recs'\<rparr>)
   }"


section \<open>Auxiliary definitions\<close>

text \<open>
  The definitions of this section are not functions of \<^verbatim>\<open>oifile.c\<close>.  They name the
  conditions under which the properties below are stated, restate parts of the
  specification for comparison with the code, and give the result of loops in closed form.
\<close>

text \<open>
  The counters that \<^verbatim>\<open>set_oi_header\<close> tests agree with the lists and the target array
  they count.
\<close>

definition counts_consistent :: "oi_fits \<Rightarrow> bool" where
  "counts_consistent pOi \<longleftrightarrow>
     numArray pOi = int (length (arrayList pOi))
     \<and> numWavelength pOi = int (length (wavelengthList pOi))
     \<and> ntarget (targets pOi) = int (length (targ (targets pOi)))"

text \<open>
  Every name that \<^verbatim>\<open>set_oi_header\<close> may copy fits a buffer of \<^verbatim>\<open>FLEN_VALUE\<close>
  characters with its terminating NUL, as a keyword value read by cfitsio does.
\<close>

definition names_fit :: "oi_fits \<Rightarrow> bool" where
  "names_fit pOi \<longleftrightarrow>
     list_all (\<lambda>tab. strlen (oi_array.arrname tab) < FLEN_VALUE) (arrayList pOi)
     \<and> list_all (\<lambda>tab. strlen (oi_wavelength.insname tab) < FLEN_VALUE) (wavelengthList pOi)
     \<and> list_all (\<lambda>t. strlen (target t) < FLEN_VALUE) (targ (targets pOi))"

text \<open>
  The specification's reading of the observation date: the date strings of the loaded
  visibility, squared-visibility, triple-product and spectrum tables, and the day counts of
  those that \<^verbatim>\<open>sscanf\<close> parses into three integers.  The earliest observation is the
  least of these day counts.
\<close>

definition spec_table_dates :: "oi_fits \<Rightarrow> string list" where
  "spec_table_dates pOi =
     map oi_vis.date_obs (visList pOi) @ map oi_vis2.date_obs (vis2List pOi)
     @ map oi_t3.date_obs (t3List pOi) @ map oi_spectrum.date_obs (spectrumList pOi)"

definition spec_parsed_mjds :: "date2mjd_fn \<Rightarrow> string list \<Rightarrow> int list" where
  "spec_parsed_mjds date2mjd ss =
     map (\<lambda>(year, month, day). date2mjd year month day) (List.map_filter sscanf_date ss)"

text \<open>
  Entering names in a hash table one after the other, as the measurement passes of
  \<^verbatim>\<open>read_oi_fits\<close> do: \<open>lookup_fn\<close> is the search of the table list, and \<open>nonempty\<close>
  tells whether an empty name is skipped.
\<close>

definition hash_name :: "bool \<Rightarrow> (string \<Rightarrow> ptr) \<Rightarrow> string \<Rightarrow> GHashTable \<Rightarrow> GHashTable" where
  "hash_name nonempty lookup_fn key h =
     (if (nonempty \<longrightarrow> key \<noteq> []) \<and> g_hash_table_lookup h key = None
      then g_hash_table_insert h key (lookup_fn key) else h)"

definition hash_names :: "bool \<Rightarrow> (string \<Rightarrow> ptr) \<Rightarrow> string list \<Rightarrow> GHashTable \<Rightarrow> GHashTable" where
  "hash_names nonempty lookup_fn keys h = fold (hash_name nonempty lookup_fn) keys h"

text \<open>
  The codec reports no error: the file opens, the header and the target table are read,
  every pass ends at the end of the file, and the target table counts its own records.
\<close>

definition codec_ok :: "fits_file \<Rightarrow> bool" where
  "codec_ok f \<longleftrightarrow>
     open_status f = 0 \<and> target_status f = 0
     \<and> array_stop f = END_OF_FILE \<and> wavelength_stop f = END_OF_FILE
     \<and> corr_stop f = END_OF_FILE \<and> polar_stop f = END_OF_FILE
     \<and> vis_stop f = END_OF_FILE \<and> vis2_stop f = END_OF_FILE
     \<and> t3_stop f = END_OF_FILE \<and> spectrum_stop f = END_OF_FILE
     \<and> ntarget (file_targets f) = int (length (targ (file_targets f)))"

text \<open>
  The container after the eight passes over a file, before the primary header is looked at
  again.  Every field is assigned, so nothing is left of the container's earlier content.
\<close>

definition loaded_tables :: "fits_file \<Rightarrow> oi_fits" where
  "loaded_tables f =
     \<lparr> header = file_header f,
       targets = file_targets f,
       numArray = int (length (array_tabs f)),
       numWavelength = int (length (wavelength_tabs f)),
       numCorr = int (length (corr_tabs f)),
       numPolar = int (length (polar_tabs f)),
       numVis = int (length (vis_tabs f)),
       numVis2 = int (length (vis2_tabs f)),
       numT3 = int (length (t3_tabs f)),
       numSpectrum = int (length (spectrum_tabs f)),
       arrayList = array_tabs f,
       wavelengthList = wavelength_tabs f,
       corrList = corr_tabs f,
       polarList = polar_tabs f,
       visList = vis_tabs f,
       vis2List = vis2_tabs f,
       t3List = t3_tabs f,
       spectrumList = spectrum_tabs f,
       arrayHash =
         hash_names True (\<lambda>n. find_link oi_array.arrname (array_tabs f) n 0)
           (map oi_vis.arrname (vis_tabs f) @ map oi_vis2.arrname (vis2_tabs f)
            @ map oi_t3.arrname (t3_tabs f) @ map oi_spectrum.arrname (spectrum_tabs f))
           Map.empty,
       wavelengthHash =
         hash_names False (\<lambda>n. find_link oi_wavelength.insname (wavelength_tabs f) n 0)
           (map oi_vis.insname (vis_tabs f) @ map oi_vis2.insname (vis2_tabs f)
            @ map oi_t3.insname (t3_tabs f) @ map oi_spectrum.insname (spectrum_tabs f))
           Map.empty,
       corrHash =
         hash_names True (\<lambda>n. find_link oi_corr.corrname (corr_tabs f) n 0)
           (map oi_vis.corrname (vis_tabs f) @ map oi_vis2.corrname (vis2_tabs f)
            @ map oi_t3.corrname (t3_tabs f))
           Map.empty \<rparr>"

text \<open>The names that the measurement tables of a container refer to.\<close>

definition measured_arrnames :: "oi_fits \<Rightarrow> string list" where
  "measured_arrnames pOi =
     map oi_vis.arrname (visList pOi) @ map oi_vis2.arrname (vis2List pOi)
     @ map oi_t3.arrname (t3List pOi) @ map oi_spectrum.arrname (spectrumList pOi)"

definition measured_insnames :: "oi_fits \<Rightarrow> string list" where
  "measured_insnames pOi =
     map oi_vis.insname (visList pOi) @ map oi_vis2.insname (vis2List pOi)
     @ map oi_t3.insname (t3List pOi) @ map oi_spectrum.insname (spectrumList pOi)"

definition measured_corrnames :: "oi_fits \<Rightarrow> string list" where
  "measured_corrnames pOi =
     map oi_vis.corrname (visList pOi) @ map oi_vis2.corrname (vis2List pOi)
     @ map oi_t3.corrname (t3List pOi)"

section \<open>Example data\<close>

text \<open>
  Concrete tables, containers and files at which the properties below are instantiated.
  The file \<open>mixed_file\<close> holds three array tables, the second and the third both named
  \<^verbatim>\<open>VLTI\<close>, and a triple-product table that refers to an array \<^verbatim>\<open>NPOI\<close> which
  the file does not contain.
\<close>

definition empty_header :: oi_header where
  "empty_header =
     \<lparr> origin = [], oi_header.date_obs = [], telescop = [], instrume = [], insmode = [],
       object = [], referenc = [], prog_id = [], procsoft = [], obstech = [] \<rparr>"

definition empty_fits :: oi_fits where
  "empty_fits =
     \<lparr> header = empty_header,
       targets = \<lparr> oi_target.revision = 0, ntarget = 0, targ = [], usecategory = FALSE \<rparr>,
       numArray = 0, numWavelength = 0, numCorr = 0, numPolar = 0,
       numVis = 0, numVis2 = 0, numT3 = 0, numSpectrum = 0,
       arrayList = [], wavelengthList = [], corrList = [], polarList = [],
       visList = [], vis2List = [], t3List = [], spectrumList = [],
       arrayHash = Map.empty, wavelengthHash = Map.empty, corrHash = Map.empty \<rparr>"

definition array_VLTI :: oi_array where
  "array_VLTI = \<lparr> oi_array.revision = 1, oi_array.arrname = ''VLTI'', nelement = 0, elem = [] \<rparr>"

definition corr_rev7 :: oi_corr where
  "corr_rev7 = \<lparr> oi_corr.revision = 7, corrname = ''C'', ndata = 0, ncorr = 0,
                  iindx = [], jindx = [], corr = [] \<rparr>"

definition v1_fits :: oi_fits where
  "v1_fits = empty_fits
     \<lparr> targets := \<lparr> oi_target.revision = 1, ntarget = 0, targ = [], usecategory = FALSE \<rparr>,
       numArray := 1, arrayList := [array_VLTI], numCorr := 1, corrList := [corr_rev7] \<rparr>"

definition v2_fits :: oi_fits where
  "v2_fits = empty_fits
     \<lparr> targets := \<lparr> oi_target.revision = 2, ntarget = 0, targ = [], usecategory = FALSE \<rparr>,
       numArray := 1, arrayList := [array_VLTI\<lparr>oi_array.revision := 2\<rparr>],
       numCorr := 1, corrList := [corr_rev7\<lparr>oi_corr.revision := 1\<rparr>] \<rparr>"

definition complex_record :: oi_vis_record where
  "complex_record =
     \<lparr> visamp = [1], visamperr = [2], visphi = [3], visphierr = [4],
       oi_vis_record.flag = [FALSE], visrefmap = [TRUE],
       rvis = [5], rviserr = [6], ivis = [7], iviserr = [8] \<rparr>"

definition complex_vis :: oi_vis where
  "complex_vis =
     \<lparr> oi_vis.revision = 2, oi_vis.date_obs = ''2020-05-01'', oi_vis.arrname = ''VLTI'',
       oi_vis.insname = ''GRAVITY'', oi_vis.corrname = [], oi_vis.numrec = 1, oi_vis.nwave = 1,
       usevisrefmap = TRUE, usecomplex = TRUE, oi_vis.record' = [complex_record] \<rparr>"

definition target_Betelgeuse :: target where
  "target_Betelgeuse = \<lparr> target_id = 1, target = ''Betelgeuse'' \<rparr>"

definition header_fits :: oi_fits where
  "header_fits = empty_fits
     \<lparr> targets := \<lparr> oi_target.revision = 1, ntarget = 1, targ = [target_Betelgeuse],
                    usecategory = FALSE \<rparr>,
       numArray := 1, arrayList := [array_VLTI] \<rparr>"

definition vis_dated :: "string \<Rightarrow> oi_vis" where
  "vis_dated d =
     \<lparr> oi_vis.revision = 1, oi_vis.date_obs = d, oi_vis.arrname = ''VLTI'',
       oi_vis.insname = ''GRAVITY'', oi_vis.corrname = [], oi_vis.numrec = 0, oi_vis.nwave = 0,
       usevisrefmap = FALSE, usecomplex = FALSE, oi_vis.record' = [] \<rparr>"

definition vis2_dated :: "string \<Rightarrow> oi_vis2" where
  "vis2_dated d =
     \<lparr> oi_vis2.revision = 1, oi_vis2.date_obs = d, oi_vis2.arrname = ''VLTI'',
       oi_vis2.insname = ''GRAVITY'', oi_vis2.corrname = [], oi_vis2.numrec = 0,
       oi_vis2.nwave = 0, oi_vis2.record' = [] \<rparr>"

definition t3_dated :: "string \<Rightarrow> oi_t3" where
  "t3_dated d =
     \<lparr> oi_t3.revision = 1, oi_t3.date_obs = d, oi_t3.arrname = ''VLTI'',
       oi_t3.insname = ''GRAVITY'', oi_t3.corrname = [], oi_t3.numrec = 0,
       oi_t3.nwave = 0, oi_t3.record' = [] \<rparr>"

definition spectrum_dated :: "string \<Rightarrow> oi_spectrum" where
  "spectrum_dated d =
     \<lparr> oi_spectrum.revision = 1, oi_spectrum.date_obs = d, oi_spectrum.arrname = ''VLTI'',
       oi_spectrum.insname = ''GRAVITY'', oi_spectrum.corrname = [], oi_spectrum.numrec = 0,
       oi_spectrum.nwave = 0, oi_spectrum.record' = [] \<rparr>"

definition three_dates_fits :: oi_fits where
  "three_dates_fits = empty_fits
     \<lparr> numVis := 1, numVis2 := 1, numT3 := 1, numSpectrum := 1,
       visList := [vis_dated ''2020-05-01''], vis2List := [vis2_dated ''2019-11-30''],
       t3List := [t3_dated ''2021-01-01''], spectrumList := [spectrum_dated ''30/11/2018''] \<rparr>"

definition future_fits :: oi_fits where
  "future_fits = empty_fits \<lparr> numVis := 1, visList := [vis_dated ''2200-01-01''] \<rparr>"

definition undated_fits :: oi_fits where
  "undated_fits = empty_fits \<lparr> numT3 := 1, t3List := [t3_dated ''20200501''] \<rparr>"

definition wavelength_GRAVITY :: oi_wavelength where
  "wavelength_GRAVITY =
     \<lparr> oi_wavelength.revision = 1, oi_wavelength.insname = ''GRAVITY'',
       oi_wavelength.nwave = 0, eff_wave = [], eff_band = [] \<rparr>"

definition v1_file :: fits_file where
  "v1_file =
     \<lparr> open_status = 0,
       file_header = empty_header\<lparr>origin := ''ESO'', telescop := ''UT1''\<rparr>,
       file_targets = \<lparr> oi_target.revision = 1, ntarget = 1, targ = [target_Betelgeuse],
                        usecategory = FALSE \<rparr>,
       target_status = 0,
       array_tabs = [array_VLTI], array_stop = END_OF_FILE,
       wavelength_tabs = [wavelength_GRAVITY], wavelength_stop = END_OF_FILE,
       corr_tabs = [], corr_stop = END_OF_FILE,
       polar_tabs = [], polar_stop = END_OF_FILE,
       vis_tabs = [vis_dated ''2020-05-01''], vis_stop = END_OF_FILE,
       vis2_tabs = [vis2_dated ''2019-11-30''], vis2_stop = END_OF_FILE,
       t3_tabs = [], t3_stop = END_OF_FILE,
       spectrum_tabs = [], spectrum_stop = END_OF_FILE,
       close_status = 0 \<rparr>"

definition mixed_file :: fits_file where
  "mixed_file = v1_file
     \<lparr> file_targets := \<lparr> oi_target.revision = 2, ntarget = 1, targ = [target_Betelgeuse],
                         usecategory = FALSE \<rparr>,
       array_tabs := [array_VLTI\<lparr>oi_array.arrname := ''CHARA''\<rparr>, array_VLTI,
                      array_VLTI\<lparr>oi_array.revision := 2\<rparr>],
       t3_tabs := [t3_dated ''2021-01-01''\<lparr>oi_t3.arrname := ''NPOI''\<rparr>] \<rparr>"

section \<open>Properties of the revision checks\<close>

lemma bad_tab_revision_iff:
  "RETURN_VAL_IF_BAD_TAB_REVISION xs rv r val =
     (if \<forall>tab\<in>set xs. rv tab = r then None else Some val)"
  by (induction xs) auto

text \<open>
  C2.  \<^verbatim>\<open>is_oi_fits_one\<close> returns TRUE exactly when the target list has revision 1 and
  every array, wavelength, visibility, squared-visibility and triple-product table has
  revision 1.  Correlation, polarization and spectrum tables play no part: replacing these
  three lists by any others leaves the answer unchanged.  A type without tables imposes no
  condition, since the quantifier over an empty list holds.
\<close>

theorem is_oi_fits_one_iff:
  "(is_oi_fits_one pOi \<longleftrightarrow>
      oi_target.revision (targets pOi) = 1
      \<and> (\<forall>tab\<in>set (arrayList pOi). oi_array.revision tab = 1)
      \<and> (\<forall>tab\<in>set (wavelengthList pOi). oi_wavelength.revision tab = 1)
      \<and> (\<forall>tab\<in>set (visList pOi). oi_vis.revision tab = 1)
      \<and> (\<forall>tab\<in>set (vis2List pOi). oi_vis2.revision tab = 1)
      \<and> (\<forall>tab\<in>set (t3List pOi). oi_t3.revision tab = 1))
   \<and> is_oi_fits_one (pOi\<lparr>corrList := cs, polarList := ps, spectrumList := ss\<rparr>)
       = is_oi_fits_one pOi"
  unfolding is_oi_fits_one_def bad_tab_revision_iff by auto

theorem is_oi_fits_one_iff_witness:
  "is_oi_fits_one v1_fits
   \<and> \<not> is_oi_fits_one (v1_fits\<lparr>arrayList := [array_VLTI, array_VLTI\<lparr>oi_array.revision := 2\<rparr>]\<rparr>)"
  using is_oi_fits_one_iff [of v1_fits]
        is_oi_fits_one_iff [of "v1_fits\<lparr>arrayList := [array_VLTI, array_VLTI\<lparr>oi_array.revision := 2\<rparr>]\<rparr>"]
  by (simp add: v1_fits_def empty_fits_def array_VLTI_def corr_rev7_def)

text \<open>
  C3.  \<^verbatim>\<open>is_oi_fits_two\<close> returns TRUE exactly when the target list and every array,
  wavelength, visibility, squared-visibility and triple-product table have revision 2 and
  every correlation, polarization and spectrum table has revision 1.
\<close>

theorem is_oi_fits_two_iff:
  "is_oi_fits_two pOi \<longleftrightarrow>
      oi_target.revision (targets pOi) = 2
      \<and> (\<forall>tab\<in>set (arrayList pOi). oi_array.revision tab = 2)
      \<and> (\<forall>tab\<in>set (wavelengthList pOi). oi_wavelength.revision tab = 2)
      \<and> (\<forall>tab\<in>set (visList pOi). oi_vis.revision tab = 2)
      \<and> (\<forall>tab\<in>set (vis2List pOi). oi_vis2.revision tab = 2)
      \<and> (\<forall>tab\<in>set (t3List pOi). oi_t3.revision tab = 2)
      \<and> (\<forall>tab\<in>set (corrList pOi). oi_corr.revision tab = 1)
      \<and> (\<forall>tab\<in>set (polarList pOi). oi_polar.revision tab = 1)
      \<and> (\<forall>tab\<in>set (spectrumList pOi). oi_spectrum.revision tab = 1)"
  unfolding is_oi_fits_two_def bad_tab_revision_iff by auto

theorem is_oi_fits_two_iff_witness:
  "is_oi_fits_two v2_fits
   \<and> \<not> is_oi_fits_two (v2_fits\<lparr>corrList := [corr_rev7]\<rparr>)"
  using is_oi_fits_two_iff [of v2_fits] is_oi_fits_two_iff [of "v2_fits\<lparr>corrList := [corr_rev7]\<rparr>"]
  by (simp add: v2_fits_def empty_fits_def array_VLTI_def corr_rev7_def)

section \<open>Properties of the initialisation\<close>

text \<open>
  C9.  Whatever the memory held before, after \<^verbatim>\<open>init_oi_fits\<close> the target list has
  revision 2 and no targets, the eight table lists are empty and their counters are 0; on
  this container \<^verbatim>\<open>is_oi_fits_two\<close> returns TRUE and \<^verbatim>\<open>is_oi_fits_one\<close> returns
  FALSE.
\<close>

theorem init_oi_fits_empty:
  "oi_target.revision (targets (init_oi_fits pOi)) = 2
   \<and> ntarget (targets (init_oi_fits pOi)) = 0
   \<and> targ (targets (init_oi_fits pOi)) = []
   \<and> arrayList (init_oi_fits pOi) = [] \<and> numArray (init_oi_fits pOi) = 0
   \<and> wavelengthList (init_oi_fits pOi) = [] \<and> numWavelength (init_oi_fits pOi) = 0
   \<and> corrList (init_oi_fits pOi) = [] \<and> numCorr (init_oi_fits pOi) = 0
   \<and> polarList (init_oi_fits pOi) = [] \<and> numPolar (init_oi_fits pOi) = 0
   \<and> visList (init_oi_fits pOi) = [] \<and> numVis (init_oi_fits pOi) = 0
   \<and> vis2List (init_oi_fits pOi) = [] \<and> numVis2 (init_oi_fits pOi) = 0
   \<and> t3List (init_oi_fits pOi) = [] \<and> numT3 (init_oi_fits pOi) = 0
   \<and> spectrumList (init_oi_fits pOi) = [] \<and> numSpectrum (init_oi_fits pOi) = 0
   \<and> is_oi_fits_two (init_oi_fits pOi)
   \<and> \<not> is_oi_fits_one (init_oi_fits pOi)"
  by (simp add: init_oi_fits_def is_oi_fits_two_def is_oi_fits_one_def)

section \<open>Properties of the writer\<close>

lemma WRITE_OI_LIST_loop_eq:
  "WRITE_OI_LIST_loop xs write_func k =
     map (\<lambda>i. write_func (xs ! i) (k + int i)) [0..<length xs]"
proof (induction xs arbitrary: k)
  case Nil
  show ?case by simp
next
  case (Cons x xs)
  have "[0..<length (x # xs)] = 0 # map Suc [0..<length xs]"
    by (simp add: upt_conv_Cons map_Suc_upt del: upt_Suc)
  then show ?case
    by (simp add: Cons.IH comp_def ac_simps del: upt_Suc)
qed

text \<open>
  C7.  Called without a pending error on a file that can be created, \<^verbatim>\<open>write_oi_fits\<close>
  writes the primary header, the target table, and then the arrays, wavelengths,
  correlations, polarizations, visibilities, squared visibilities, triple products and
  spectra, in this order of types.  Within a type the tables follow the order of the list,
  and the table at position \<open>i\<close> (counted from 0) is written with version number \<open>i + 1\<close>:
  the numbering starts again at 1 for every type.
\<close>

theorem write_oi_fits_order:
  "write_oi_fits filename oi 0 0 =
     [fits_create_file filename, write_oi_header (header oi), write_oi_target (targets oi)]
     @ map (\<lambda>i. write_oi_array (arrayList oi ! i) (int i + 1)) [0..<length (arrayList oi)]
     @ map (\<lambda>i. write_oi_wavelength (wavelengthList oi ! i) (int i + 1))
         [0..<length (wavelengthList oi)]
     @ map (\<lambda>i. write_oi_corr (corrList oi ! i) (int i + 1)) [0..<length (corrList oi)]
     @ map (\<lambda>i. write_oi_polar (polarList oi ! i) (int i + 1)) [0..<length (polarList oi)]
     @ map (\<lambda>i. write_oi_vis (visList oi ! i) (int i + 1)) [0..<length (visList oi)]
     @ map (\<lambda>i. write_oi_vis2 (vis2List oi ! i) (int i + 1)) [0..<length (vis2List oi)]
     @ map (\<lambda>i. write_oi_t3 (t3List oi ! i) (int i + 1)) [0..<length (t3List oi)]
     @ map (\<lambda>i. write_oi_spectrum (spectrumList oi ! i) (int i + 1))
         [0..<length (spectrumList oi)]
     @ [fits_close_file]"
  by (simp add: write_oi_fits_def WRITE_OI_LIST_def WRITE_OI_LIST_loop_eq add.commute)

section \<open>Properties of the deep copies\<close>

text \<open>
  A table is well formed when its counters give the lengths of its arrays.  On well-formed
  tables seven of the eight copy functions return a table equal to their argument.
\<close>

lemma MEMDUP_all: "n = int (length src) \<Longrightarrow> MEMDUP src n = Some src"
  by (simp add: MEMDUP_def)

lemma dup_records_map:
  "(\<And>r. r \<in> set recs \<Longrightarrow> body r = Some (g r)) \<Longrightarrow> dup_records body recs = Some (map g recs)"
  by (induction recs) simp_all

lemma dup_oi_target_equal:
  "ntarget pInTab = int (length (targ pInTab)) \<Longrightarrow> dup_oi_target pInTab = Some pInTab"
  by (simp add: dup_oi_target_def MEMDUP_all)

lemma dup_oi_array_equal:
  "nelement pInTab = int (length (elem pInTab)) \<Longrightarrow> dup_oi_array pInTab = Some pInTab"
  by (simp add: dup_oi_array_def MEMDUP_all)

lemma dup_oi_wavelength_equal:
  "oi_wavelength.nwave pInTab = int (length (eff_wave pInTab)) \<Longrightarrow>
   oi_wavelength.nwave pInTab = int (length (eff_band pInTab)) \<Longrightarrow>
   dup_oi_wavelength pInTab = Some pInTab"
  by (simp add: dup_oi_wavelength_def MEMDUP_all)

lemma dup_oi_corr_equal:
  "ncorr pInTab = int (length (iindx pInTab)) \<Longrightarrow>
   ncorr pInTab = int (length (jindx pInTab)) \<Longrightarrow>
   ncorr pInTab = int (length (corr pInTab)) \<Longrightarrow>
   dup_oi_corr pInTab = Some pInTab"
  by (simp add: dup_oi_corr_def MEMDUP_all)

lemma dup_oi_vis2_equal:
  assumes "oi_vis2.numrec pInTab = int (length (oi_vis2.record' pInTab))"
    and "\<And>r. r \<in> set (oi_vis2.record' pInTab) \<Longrightarrow>
           oi_vis2.nwave pInTab = int (length (vis2data r))
           \<and> oi_vis2.nwave pInTab = int (length (vis2err r))
           \<and> oi_vis2.nwave pInTab = int (length (oi_vis2_record.flag r))"
  shows "dup_oi_vis2 pInTab = Some pInTab"
proof -
  have "dup_records (dup_oi_vis2_record pInTab) (oi_vis2.record' pInTab)
          = Some (map (\<lambda>r. r) (oi_vis2.record' pInTab))"
  proof (rule dup_records_map)
    fix r assume r: "r \<in> set (oi_vis2.record' pInTab)"
    have "MEMDUP (vis2data r) (oi_vis2.nwave pInTab) = Some (vis2data r)"
      "MEMDUP (vis2err r) (oi_vis2.nwave pInTab) = Some (vis2err r)"
      "MEMDUP (oi_vis2_record.flag r) (oi_vis2.nwave pInTab) = Some (oi_vis2_record.flag r)"
      using assms(2) [OF r] by (simp_all add: MEMDUP_def)
    then show "dup_oi_vis2_record pInTab r = Some r"
      by (simp add: dup_oi_vis2_record_def)
  qed
  then show ?thesis
    by (simp add: dup_oi_vis2_def MEMDUP_all assms(1))
qed

lemma dup_oi_t3_equal:
  assumes "oi_t3.numrec pInTab = int (length (oi_t3.record' pInTab))"
    and "\<And>r. r \<in> set (oi_t3.record' pInTab) \<Longrightarrow>
           oi_t3.nwave pInTab = int (length (t3amp r))
           \<and> oi_t3.nwave pInTab = int (length (t3amperr r))
           \<and> oi_t3.nwave pInTab = int (length (t3phi r))
           \<and> oi_t3.nwave pInTab = int (length (t3phierr r))
           \<and> oi_t3.nwave pInTab = int (length (oi_t3_record.flag r))"
  shows "dup_oi_t3 pInTab = Some pInTab"
proof -
  have "dup_records (dup_oi_t3_record pInTab) (oi_t3.record' pInTab)
          = Some (map (\<lambda>r. r) (oi_t3.record' pInTab))"
  proof (rule dup_records_map)
    fix r assume r: "r \<in> set (oi_t3.record' pInTab)"
    have "MEMDUP (t3amp r) (oi_t3.nwave pInTab) = Some (t3amp r)"
      "MEMDUP (t3amperr r) (oi_t3.nwave pInTab) = Some (t3amperr r)"
      "MEMDUP (t3phi r) (oi_t3.nwave pInTab) = Some (t3phi r)"
      "MEMDUP (t3phierr r) (oi_t3.nwave pInTab) = Some (t3phierr r)"
      "MEMDUP (oi_t3_record.flag r) (oi_t3.nwave pInTab) = Some (oi_t3_record.flag r)"
      using assms(2) [OF r] by (simp_all add: MEMDUP_def)
    then show "dup_oi_t3_record pInTab r = Some r"
      by (simp add: dup_oi_t3_record_def)
  qed
  then show ?thesis
    by (simp add: dup_oi_t3_def MEMDUP_all assms(1))
qed

lemma dup_oi_spectrum_equal:
  assumes "oi_spectrum.numrec pInTab = int (length (oi_spectrum.record' pInTab))"
    and "\<And>r. r \<in> set (oi_spectrum.record' pInTab) \<Longrightarrow>
           oi_spectrum.nwave pInTab = int (length (fluxdata r))
           \<and> oi_spectrum.nwave pInTab = int (length (fluxerr r))"
  shows "dup_oi_spectrum pInTab = Some pInTab"
proof -
  have "dup_records (dup_oi_spectrum_record pInTab) (oi_spectrum.record' pInTab)
          = Some (map (\<lambda>r. r) (oi_spectrum.record' pInTab))"
  proof (rule dup_records_map)
    fix r assume r: "r \<in> set (oi_spectrum.record' pInTab)"
    have "MEMDUP (fluxdata r) (oi_spectrum.nwave pInTab) = Some (fluxdata r)"
      "MEMDUP (fluxerr r) (oi_spectrum.nwave pInTab) = Some (fluxerr r)"
      using assms(2) [OF r] by (simp_all add: MEMDUP_def)
    then show "dup_oi_spectrum_record pInTab r = Some r"
      by (simp add: dup_oi_spectrum_record_def)
  qed
  then show ?thesis
    by (simp add: dup_oi_spectrum_def MEMDUP_all assms(1))
qed

text \<open>
  \<^verbatim>\<open>dup_oi_vis\<close> returns its argument with one change: when \<^verbatim>\<open>usecomplex\<close> is set,
  the array \<^verbatim>\<open>iviserr\<close> of every record of the copy holds the cells of \<^verbatim>\<open>rviserr\<close>.
\<close>

lemma dup_oi_vis_result:
  assumes "oi_vis.numrec pInTab = int (length (oi_vis.record' pInTab))"
    and "\<And>r. r \<in> set (oi_vis.record' pInTab) \<Longrightarrow>
           oi_vis.nwave pInTab = int (length (visamp r))
           \<and> oi_vis.nwave pInTab = int (length (visamperr r))
           \<and> oi_vis.nwave pInTab = int (length (visphi r))
           \<and> oi_vis.nwave pInTab = int (length (visphierr r))
           \<and> oi_vis.nwave pInTab = int (length (oi_vis_record.flag r))"
    and "\<And>r. usevisrefmap pInTab \<Longrightarrow> r \<in> set (oi_vis.record' pInTab) \<Longrightarrow>
           oi_vis.nwave pInTab * oi_vis.nwave pInTab = int (length (visrefmap r))
           \<and> oi_vis.nwave pInTab * oi_vis.nwave pInTab \<le> INT_MAX"
    and "\<And>r. usecomplex pInTab \<Longrightarrow> r \<in> set (oi_vis.record' pInTab) \<Longrightarrow>
           oi_vis.nwave pInTab = int (length (rvis r))
           \<and> oi_vis.nwave pInTab = int (length (rviserr r))
           \<and> oi_vis.nwave pInTab = int (length (ivis r))"
  shows "dup_oi_vis pInTab =
           Some (pInTab\<lparr>oi_vis.record' :=
                   map (\<lambda>r. if usecomplex pInTab then r\<lparr>iviserr := rviserr r\<rparr> else r)
                       (oi_vis.record' pInTab)\<rparr>)"
proof -
  have "dup_records (dup_oi_vis_record pInTab) (oi_vis.record' pInTab)
          = Some (map (\<lambda>r. if usecomplex pInTab then r\<lparr>iviserr := rviserr r\<rparr> else r)
                      (oi_vis.record' pInTab))"
  proof (rule dup_records_map)
    fix r assume r: "r \<in> set (oi_vis.record' pInTab)"
    have a: "MEMDUP (visamp r) (oi_vis.nwave pInTab) = Some (visamp r)"
      "MEMDUP (visamperr r) (oi_vis.nwave pInTab) = Some (visamperr r)"
      "MEMDUP (visphi r) (oi_vis.nwave pInTab) = Some (visphi r)"
      "MEMDUP (visphierr r) (oi_vis.nwave pInTab) = Some (visphierr r)"
      "MEMDUP (oi_vis_record.flag r) (oi_vis.nwave pInTab) = Some (oi_vis_record.flag r)"
      using assms(2) [OF r] by (simp_all add: MEMDUP_def)
    have b: "usevisrefmap pInTab \<Longrightarrow>
        MEMDUP (visrefmap r) (oi_vis.nwave pInTab * oi_vis.nwave pInTab) = Some (visrefmap r)
        \<and> \<not> oi_vis.nwave pInTab * oi_vis.nwave pInTab > INT_MAX"
      using assms(3) [OF _ r] by (simp add: MEMDUP_def)
    have c: "usecomplex pInTab \<Longrightarrow>
        MEMDUP (rvis r) (oi_vis.nwave pInTab) = Some (rvis r)
        \<and> MEMDUP (rviserr r) (oi_vis.nwave pInTab) = Some (rviserr r)
        \<and> MEMDUP (ivis r) (oi_vis.nwave pInTab) = Some (ivis r)"
      using assms(4) [OF _ r] by (simp add: MEMDUP_def)
    show "dup_oi_vis_record pInTab r
            = Some (if usecomplex pInTab then r\<lparr>iviserr := rviserr r\<rparr> else r)"
      using b c by (simp add: dup_oi_vis_record_def a)
  qed
  then show ?thesis
    by (simp add: dup_oi_vis_def MEMDUP_all assms(1))
qed

text \<open>
  C1.  The claim is that every copy function returns a table equal to its source, the
  arrays \<^verbatim>\<open>rvis\<close>, \<^verbatim>\<open>rviserr\<close>, \<^verbatim>\<open>ivis\<close> and \<^verbatim>\<open>iviserr\<close> of a visibility table
  with \<^verbatim>\<open>usecomplex\<close> included.  The code does not do this for \<^verbatim>\<open>iviserr\<close>: on a
  table with one record and one channel in which \<^verbatim>\<open>rviserr\<close> holds 6 and \<^verbatim>\<open>iviserr\<close>
  holds 8, the copy's \<^verbatim>\<open>iviserr\<close> holds 6, and the copy differs from the source.
\<close>

theorem dup_oi_vis_iviserr:
  "dup_oi_vis complex_vis
     = Some (complex_vis\<lparr>oi_vis.record' := [complex_record\<lparr>iviserr := rviserr complex_record\<rparr>]\<rparr>)
   \<and> rviserr complex_record = [6] \<and> iviserr complex_record = [8]
   \<and> dup_oi_vis complex_vis \<noteq> Some complex_vis"
  by (simp add: dup_oi_vis_def dup_oi_vis_record_def MEMDUP_def INT_MAX_def
      complex_vis_def complex_record_def)

section \<open>Properties of the header synthesis\<close>

lemma spec_parsed_mjds_simps:
  "spec_parsed_mjds d2m [] = []"
  "spec_parsed_mjds d2m (s # ss) =
     (case sscanf_date s of None \<Rightarrow> spec_parsed_mjds d2m ss
      | Some (y, m, d) \<Rightarrow> d2m y m d # spec_parsed_mjds d2m ss)"
  by (simp_all add: spec_parsed_mjds_def List.map_filter_simps split: option.splits)

lemma spec_parsed_mjds_append:
  "spec_parsed_mjds d2m (ss @ ts) = spec_parsed_mjds d2m ss @ spec_parsed_mjds d2m ts"
  by (simp add: spec_parsed_mjds_def List.map_filter_def)

lemma min_mjd_loop_fold:
  "min_mjd_loop d2m dobs xs m = fold min (spec_parsed_mjds d2m (map dobs xs)) m"
proof (induction xs arbitrary: m)
  case Nil
  show ?case by (simp add: spec_parsed_mjds_simps)
next
  case (Cons x xs)
  show ?case
    by (cases "sscanf_date (dobs x)")
       (auto simp: Cons.IH spec_parsed_mjds_simps Let_def min_def)
qed

lemma min_mjd_fold:
  "min_mjd d2m pOi = fold min (spec_parsed_mjds d2m (spec_table_dates pOi)) 100000"
  by (simp add: min_mjd_def min_mjd_loop_fold spec_table_dates_def spec_parsed_mjds_append)

lemma min_mjd_Min:
  "min_mjd d2m pOi = Min (insert 100000 (set (spec_parsed_mjds d2m (spec_table_dates pOi))))"
proof -
  have "Min (set (100000 # spec_parsed_mjds d2m (spec_table_dates pOi)))
          = fold min (spec_parsed_mjds d2m (spec_table_dates pOi)) 100000"
    by (rule Min.set_eq_fold)
  then show ?thesis by (simp add: min_mjd_fold)
qed

lemma g_strlcpy_fits: "strlen s < n \<Longrightarrow> g_strlcpy s n = s"
  by (simp add: g_strlcpy_def strlen_def)

lemma set_oi_header_Some:
  assumes "counts_consistent pOi"
  shows "set_oi_header d2m m2d pOi =
     Some (pOi\<lparr> header := (header pOi)
       \<lparr> telescop :=
           (case arrayList pOi of [] \<Rightarrow> g_strlcpy ''UNKNOWN'' FLEN_VALUE
            | [pArray] \<Rightarrow> g_strlcpy (oi_array.arrname pArray) FLEN_VALUE
            | _ \<Rightarrow> g_strlcpy multiple FLEN_VALUE),
         instrume :=
           (case wavelengthList pOi of [pWave] \<Rightarrow> g_strlcpy (oi_wavelength.insname pWave) FLEN_VALUE
            | _ \<Rightarrow> g_strlcpy multiple FLEN_VALUE),
         object :=
           (case targ (targets pOi) of [t] \<Rightarrow> g_strlcpy (target t) FLEN_VALUE
            | _ \<Rightarrow> g_strlcpy multiple FLEN_VALUE),
         oi_header.date_obs :=
           (case m2d (min_mjd d2m pOi) of (year, month, day) \<Rightarrow>
              g_snprintf_date FLEN_VALUE year month day) \<rparr> \<rparr>)"
proof -
  have a: "numArray pOi = int (length (arrayList pOi))"
    and w: "numWavelength pOi = int (length (wavelengthList pOi))"
    and t: "ntarget (targets pOi) = int (length (targ (targets pOi)))"
    using assms by (simp_all add: counts_consistent_def)
  show ?thesis
    unfolding set_oi_header_def a w t
    by (cases "arrayList pOi"; cases "wavelengthList pOi"; cases "targ (targets pOi)";
        cases "m2d (min_mjd d2m pOi)")
       (simp_all split: list.splits)
qed

lemma sscanf_date_examples:
  "sscanf_date ''2020-05-01'' = Some (2020, 5, 1)"
  "sscanf_date ''2019-11-30'' = Some (2019, 11, 30)"
  "sscanf_date ''2021-01-01'' = Some (2021, 1, 1)"
  "sscanf_date ''2200-01-01'' = Some (2200, 1, 1)"
  "sscanf_date ''30/11/2018'' = None"
  "sscanf_date ''20200501'' = None"
  by code_simp+

lemma gregorian_examples:
  "gregorian_date2mjd 2020 5 1 = 58970"
  "gregorian_date2mjd 2019 11 30 = 58817"
  "gregorian_date2mjd 2021 1 1 = 59215"
  "gregorian_date2mjd 2200 1 1 = 124593"
  "gregorian_mjd2date 58817 = (2019, 11, 30)"
  "gregorian_mjd2date 100000 = (2132, 9, 1)"
  by code_simp+

lemma g_snprintf_date_examples:
  "g_snprintf_date FLEN_VALUE 2019 11 30 = ''2019-11-30''"
  "g_snprintf_date FLEN_VALUE 2132 9 1 = ''2132-09-01''"
  by code_simp+

text \<open>
  C4.  On a container whose counters agree with its lists and whose names fit the header
  buffers, \<^verbatim>\<open>set_oi_header\<close> returns, and afterwards the telescope field is
  \<^verbatim>\<open>UNKNOWN\<close> without array tables, the name of the array table when there is one, and
  \<^verbatim>\<open>MULTIPLE\<close> otherwise; the instrument field is the name of the wavelength table when
  there is exactly one and \<^verbatim>\<open>MULTIPLE\<close> otherwise, also without wavelength tables; the
  object field is the name of the target when there is exactly one and \<^verbatim>\<open>MULTIPLE\<close>
  otherwise.
\<close>

theorem set_oi_header_names:
  assumes "counts_consistent pOi" and "names_fit pOi"
  shows "\<exists>pOi'. set_oi_header date2mjd mjd2date pOi = Some pOi'
     \<and> telescop (header pOi') =
         (case arrayList pOi of [] \<Rightarrow> ''UNKNOWN''
          | [pArray] \<Rightarrow> oi_array.arrname pArray
          | _ \<Rightarrow> ''MULTIPLE'')
     \<and> instrume (header pOi') =
         (case wavelengthList pOi of [pWave] \<Rightarrow> oi_wavelength.insname pWave
          | _ \<Rightarrow> ''MULTIPLE'')
     \<and> object (header pOi') =
         (case targ (targets pOi) of [t] \<Rightarrow> target t | _ \<Rightarrow> ''MULTIPLE'')"
proof -
  have lit: "g_strlcpy ''UNKNOWN'' FLEN_VALUE = ''UNKNOWN''"
    "g_strlcpy multiple FLEN_VALUE = ''MULTIPLE''"
    by (simp_all add: g_strlcpy_def FLEN_VALUE_def multiple_def)
  have tel: "(case arrayList pOi of [] \<Rightarrow> g_strlcpy ''UNKNOWN'' FLEN_VALUE
            | [pArray] \<Rightarrow> g_strlcpy (oi_array.arrname pArray) FLEN_VALUE
            | _ \<Rightarrow> g_strlcpy multiple FLEN_VALUE)
          = (case arrayList pOi of [] \<Rightarrow> ''UNKNOWN''
            | [pArray] \<Rightarrow> oi_array.arrname pArray
            | _ \<Rightarrow> ''MULTIPLE'')"
    using assms(2) by (auto simp: names_fit_def lit g_strlcpy_fits split: list.splits)
  have ins: "(case wavelengthList pOi of
              [pWave] \<Rightarrow> g_strlcpy (oi_wavelength.insname pWave) FLEN_VALUE
            | _ \<Rightarrow> g_strlcpy multiple FLEN_VALUE)
          = (case wavelengthList pOi of [pWave] \<Rightarrow> oi_wavelength.insname pWave
            | _ \<Rightarrow> ''MULTIPLE'')"
    using assms(2) by (auto simp: names_fit_def lit g_strlcpy_fits split: list.splits)
  have obj: "(case targ (targets pOi) of [t] \<Rightarrow> g_strlcpy (target t) FLEN_VALUE
            | _ \<Rightarrow> g_strlcpy multiple FLEN_VALUE)
          = (case targ (targets pOi) of [t] \<Rightarrow> target t | _ \<Rightarrow> ''MULTIPLE'')"
    using assms(2) by (auto simp: names_fit_def lit g_strlcpy_fits split: list.splits)
  show ?thesis
    by (simp only: set_oi_header_Some [OF assms(1)] tel ins obj) simp
qed

theorem set_oi_header_names_witness:
  "counts_consistent header_fits \<and> names_fit header_fits
   \<and> (\<exists>pOi'. set_oi_header gregorian_date2mjd gregorian_mjd2date header_fits = Some pOi'
        \<and> telescop (header pOi') = ''VLTI''
        \<and> instrume (header pOi') = ''MULTIPLE''
        \<and> object (header pOi') = ''Betelgeuse'')"
proof -
  have c: "counts_consistent header_fits"
    by (simp add: counts_consistent_def header_fits_def empty_fits_def)
  have n: "names_fit header_fits"
    by (simp add: names_fit_def header_fits_def empty_fits_def array_VLTI_def
        target_Betelgeuse_def strlen_def FLEN_VALUE_def)
  show ?thesis
    using set_oi_header_names [OF c n, of gregorian_date2mjd gregorian_mjd2date] c n
    by (simp add: header_fits_def empty_fits_def array_VLTI_def target_Betelgeuse_def)
qed

text \<open>
  Where a table has a date that parses to a day count below 100000, \<^verbatim>\<open>min_mjd\<close>
  returns the least day count of the tables whose date parses, for every conversion
  \<open>date2mjd\<close>; a table whose date does not parse is passed over.
\<close>

lemma min_mjd_earliest:
  assumes "\<exists>mjd\<in>set (spec_parsed_mjds date2mjd (spec_table_dates pOi)). mjd < 100000"
  shows "min_mjd date2mjd pOi = Min (set (spec_parsed_mjds date2mjd (spec_table_dates pOi)))"
proof -
  let ?S = "set (spec_parsed_mjds date2mjd (spec_table_dates pOi))"
  obtain mjd where m: "mjd \<in> ?S" "mjd < 100000"
    using assms by blast
  have ne: "?S \<noteq> {}"
    using m(1) by auto
  have "Min ?S \<le> mjd"
    using m(1) by simp
  with m(2) have "Min ?S < 100000"
    by simp
  moreover have "Min (insert 100000 ?S) = min 100000 (Min ?S)"
    using ne by simp
  ultimately show ?thesis
    by (simp add: min_mjd_Min)
qed

lemma three_dates_mjds:
  "spec_parsed_mjds gregorian_date2mjd (spec_table_dates three_dates_fits) = [58970, 58817, 59215]"
  by (simp add: spec_table_dates_def three_dates_fits_def empty_fits_def vis_dated_def
      vis2_dated_def t3_dated_def spectrum_dated_def spec_parsed_mjds_simps
      sscanf_date_examples gregorian_examples)

text \<open>
  The example of the specification: tables dated 2020-05-01, 2019-11-30 and 2021-01-01
  and a table whose date does not parse give the observation date 2019-11-30.
\<close>

lemma set_oi_header_three_dates:
  "min_mjd gregorian_date2mjd three_dates_fits = 58817
   \<and> map_option (\<lambda>pOi'. oi_header.date_obs (header pOi'))
        (set_oi_header gregorian_date2mjd gregorian_mjd2date three_dates_fits) = Some ''2019-11-30''"
proof -
  have c: "counts_consistent three_dates_fits"
    by (simp add: counts_consistent_def three_dates_fits_def empty_fits_def)
  have m: "min_mjd gregorian_date2mjd three_dates_fits = 58817"
    by (simp add: min_mjd_fold three_dates_mjds)
  show ?thesis
    by (simp add: set_oi_header_Some [OF c] m gregorian_examples g_snprintf_date_examples)
qed

text \<open>
  C5.  The claim is that \<^verbatim>\<open>set_oi_header\<close> sets the observation date to the earliest
  date of the loaded visibility, squared-visibility, triple-product and spectrum tables,
  and the comment above \<^verbatim>\<open>min_mjd\<close> says that it returns the earliest of the table
  dates.  The code does not do this when every date lies on or after day 100000, the value
  at which the running minimum starts.  The container \<open>future_fits\<close> has one measurement
  table, a visibility table dated 2200-01-01.  The date parses, the least day count of the
  tables is 124593, \<^verbatim>\<open>min_mjd\<close> returns 100000, and the header receives 2132-09-01, the
  date of day 100000, which is the date of no table.
\<close>

theorem min_mjd_future_date:
  "visList future_fits = [vis_dated ''2200-01-01'']
   \<and> vis2List future_fits = [] \<and> t3List future_fits = [] \<and> spectrumList future_fits = []
   \<and> oi_vis.date_obs (vis_dated ''2200-01-01'') = ''2200-01-01''
   \<and> sscanf_date ''2200-01-01'' = Some (2200, 1, 1)
   \<and> gregorian_date2mjd 2200 1 1 = 124593
   \<and> Min (set (spec_parsed_mjds gregorian_date2mjd (spec_table_dates future_fits))) = 124593
   \<and> min_mjd gregorian_date2mjd future_fits = 100000
   \<and> map_option (\<lambda>pOi'. oi_header.date_obs (header pOi'))
        (set_oi_header gregorian_date2mjd gregorian_mjd2date future_fits) = Some ''2132-09-01''"
proof -
  have m: "min_mjd gregorian_date2mjd future_fits = 100000"
    by (simp add: min_mjd_def future_fits_def empty_fits_def vis_dated_def
        sscanf_date_examples gregorian_examples)
  have c: "counts_consistent future_fits"
    by (simp add: counts_consistent_def future_fits_def empty_fits_def)
  have p: "spec_parsed_mjds gregorian_date2mjd (spec_table_dates future_fits) = [124593]"
    by (simp add: spec_table_dates_def future_fits_def empty_fits_def vis_dated_def
        spec_parsed_mjds_simps sscanf_date_examples gregorian_examples)
  show ?thesis
    by (simp add: set_oi_header_Some [OF c] m p gregorian_examples g_snprintf_date_examples
        sscanf_date_examples)
       (simp add: future_fits_def empty_fits_def vis_dated_def)
qed

lemma printf_ld_nonempty: "printf_ld 4 n \<noteq> []"
proof -
  have "4 \<le> length (printf_ld 4 n)"
    by (simp add: printf_ld_def Let_def)
  then show ?thesis by auto
qed

lemma g_snprintf_date_nonempty: "g_snprintf_date FLEN_VALUE year month day \<noteq> []"
  using printf_ld_nonempty [of year]
  by (simp add: g_snprintf_date_def FLEN_VALUE_def)

text \<open>
  C10.  When no date string of a visibility, squared-visibility, triple-product or spectrum
  table parses, which includes the container without such tables, \<^verbatim>\<open>min_mjd\<close> returns
  100000, and \<^verbatim>\<open>set_oi_header\<close> sets the observation date to the calendar date that
  \<^verbatim>\<open>mjd2date\<close> gives for day 100000; the field is not empty afterwards.
\<close>

theorem min_mjd_sentinel:
  assumes "counts_consistent pOi"
    and "list_all (\<lambda>s. sscanf_date s = None) (spec_table_dates pOi)"
  shows "min_mjd date2mjd pOi = 100000
     \<and> (\<exists>pOi'. set_oi_header date2mjd mjd2date pOi = Some pOi'
          \<and> oi_header.date_obs (header pOi') =
              (case mjd2date 100000 of
                 (year, month, day) \<Rightarrow> g_snprintf_date FLEN_VALUE year month day)
          \<and> oi_header.date_obs (header pOi') \<noteq> [])"
proof -
  have "spec_parsed_mjds date2mjd ss = []" if "list_all (\<lambda>s. sscanf_date s = None) ss" for ss
    using that by (induction ss) (simp_all add: spec_parsed_mjds_simps)
  then have m: "min_mjd date2mjd pOi = 100000"
    using assms(2) by (simp add: min_mjd_fold)
  show ?thesis
    by (cases "mjd2date 100000")
       (simp add: set_oi_header_Some [OF assms(1)] m g_snprintf_date_nonempty)
qed

theorem min_mjd_sentinel_witness:
  "counts_consistent undated_fits
   \<and> list_all (\<lambda>s. sscanf_date s = None) (spec_table_dates undated_fits)
   \<and> min_mjd gregorian_date2mjd undated_fits = 100000
   \<and> (\<exists>pOi'. set_oi_header gregorian_date2mjd gregorian_mjd2date undated_fits = Some pOi'
        \<and> oi_header.date_obs (header pOi') = ''2132-09-01'')"
proof -
  have c: "counts_consistent undated_fits"
    by (simp add: counts_consistent_def undated_fits_def empty_fits_def)
  have u: "list_all (\<lambda>s. sscanf_date s = None) (spec_table_dates undated_fits)"
    by (simp add: spec_table_dates_def undated_fits_def empty_fits_def t3_dated_def
        sscanf_date_examples)
  show ?thesis
    using min_mjd_sentinel [OF c u, of gregorian_date2mjd gregorian_mjd2date] c u
    by (auto simp: gregorian_examples g_snprintf_date_examples)
qed

section \<open>Properties of the loader\<close>

lemma hash_names_simps:
  "hash_names nonempty lookup_fn [] h = h"
  "hash_names nonempty lookup_fn (k # ks) h = hash_names nonempty lookup_fn ks (hash_name nonempty lookup_fn k h)"
  "hash_names nonempty lookup_fn (ks @ ks') h = hash_names nonempty lookup_fn ks' (hash_names nonempty lookup_fn ks h)"
  by (simp_all add: hash_names_def)

lemma hash_array_eq:
  "hash_array n pOi = pOi\<lparr>arrayHash := hash_name True (find_oi_array pOi) n (arrayHash pOi)\<rparr>"
  by (simp add: hash_array_def hash_name_def strlen_def)

lemma hash_wavelength_eq:
  "hash_wavelength n pOi =
     pOi\<lparr>wavelengthHash := hash_name False (find_oi_wavelength pOi) n (wavelengthHash pOi)\<rparr>"
  by (simp add: hash_wavelength_def hash_name_def)

lemma hash_corr_eq:
  "hash_corr n pOi = pOi\<lparr>corrHash := hash_name True (find_oi_corr pOi) n (corrHash pOi)\<rparr>"
  by (simp add: hash_corr_def hash_name_def strlen_def)

lemma find_oi_eta:
  "find_oi_array pOi = (\<lambda>n. find_link oi_array.arrname (arrayList pOi) n 0)"
  "find_oi_wavelength pOi = (\<lambda>n. find_link oi_wavelength.insname (wavelengthList pOi) n 0)"
  "find_oi_corr pOi = (\<lambda>n. find_link oi_corr.corrname (corrList pOi) n 0)"
  by (simp_all add: find_oi_array_def find_oi_wavelength_def find_oi_corr_def fun_eq_iff)

lemma read_all_oi_array_eq:
  "read_all_oi_array tabs pOi =
     pOi\<lparr>arrayList := arrayList pOi @ tabs, numArray := numArray pOi + int (length tabs)\<rparr>"
  by (induction tabs arbitrary: pOi) (simp_all add: g_list_append_def)

lemma read_all_oi_wavelength_eq:
  "read_all_oi_wavelength tabs pOi =
     pOi\<lparr>wavelengthList := wavelengthList pOi @ tabs,
          numWavelength := numWavelength pOi + int (length tabs)\<rparr>"
  by (induction tabs arbitrary: pOi) (simp_all add: g_list_append_def)

lemma read_all_oi_corr_eq:
  "read_all_oi_corr tabs pOi =
     pOi\<lparr>corrList := corrList pOi @ tabs, numCorr := numCorr pOi + int (length tabs)\<rparr>"
  by (induction tabs arbitrary: pOi) (simp_all add: g_list_append_def)

lemma read_all_oi_polar_eq:
  "read_all_oi_polar tabs pOi =
     pOi\<lparr>polarList := polarList pOi @ tabs, numPolar := numPolar pOi + int (length tabs)\<rparr>"
  by (induction tabs arbitrary: pOi) (simp_all add: g_list_append_def)

lemma read_all_oi_vis_eq:
  "read_all_oi_vis tabs pOi =
     pOi\<lparr>visList := visList pOi @ tabs, numVis := numVis pOi + int (length tabs),
          arrayHash := hash_names True (find_oi_array pOi) (map oi_vis.arrname tabs) (arrayHash pOi),
          wavelengthHash :=
            hash_names False (find_oi_wavelength pOi) (map oi_vis.insname tabs) (wavelengthHash pOi),
          corrHash := hash_names True (find_oi_corr pOi) (map oi_vis.corrname tabs) (corrHash pOi)\<rparr>"
proof (induction tabs arbitrary: pOi)
  case Nil
  show ?case by (simp add: hash_names_simps)
next
  case (Cons t tabs)
  show ?case
    by (simp add: Cons.IH hash_array_eq hash_wavelength_eq hash_corr_eq g_list_append_def
        hash_names_simps find_oi_eta)
qed


lemma read_all_oi_vis2_eq:
  "read_all_oi_vis2 tabs pOi =
     pOi\<lparr>vis2List := vis2List pOi @ tabs, numVis2 := numVis2 pOi + int (length tabs),
          arrayHash := hash_names True (find_oi_array pOi) (map oi_vis2.arrname tabs) (arrayHash pOi),
          wavelengthHash :=
            hash_names False (find_oi_wavelength pOi) (map oi_vis2.insname tabs) (wavelengthHash pOi),
          corrHash := hash_names True (find_oi_corr pOi) (map oi_vis2.corrname tabs) (corrHash pOi)\<rparr>"
proof (induction tabs arbitrary: pOi)
  case Nil
  show ?case by (simp add: hash_names_simps)
next
  case (Cons t tabs)
  show ?case
    by (simp add: Cons.IH hash_array_eq hash_wavelength_eq hash_corr_eq g_list_append_def
        hash_names_simps find_oi_eta)
qed

lemma read_all_oi_t3_eq:
  "read_all_oi_t3 tabs pOi =
     pOi\<lparr>t3List := t3List pOi @ tabs, numT3 := numT3 pOi + int (length tabs),
          arrayHash := hash_names True (find_oi_array pOi) (map oi_t3.arrname tabs) (arrayHash pOi),
          wavelengthHash :=
            hash_names False (find_oi_wavelength pOi) (map oi_t3.insname tabs) (wavelengthHash pOi),
          corrHash := hash_names True (find_oi_corr pOi) (map oi_t3.corrname tabs) (corrHash pOi)\<rparr>"
proof (induction tabs arbitrary: pOi)
  case Nil
  show ?case by (simp add: hash_names_simps)
next
  case (Cons t tabs)
  show ?case
    by (simp add: Cons.IH hash_array_eq hash_wavelength_eq hash_corr_eq g_list_append_def
        hash_names_simps find_oi_eta)
qed

lemma read_all_oi_spectrum_eq:
  "read_all_oi_spectrum tabs pOi =
     pOi\<lparr>spectrumList := spectrumList pOi @ tabs,
          numSpectrum := numSpectrum pOi + int (length tabs),
          arrayHash :=
            hash_names True (find_oi_array pOi) (map oi_spectrum.arrname tabs) (arrayHash pOi),
          wavelengthHash :=
            hash_names False (find_oi_wavelength pOi) (map oi_spectrum.insname tabs)
              (wavelengthHash pOi)\<rparr>"
proof (induction tabs arbitrary: pOi)
  case Nil
  show ?case by (simp add: hash_names_simps)
next
  case (Cons t tabs)
  show ?case
    by (simp add: Cons.IH hash_array_eq hash_wavelength_eq g_list_append_def
        hash_names_simps find_oi_eta)
qed

lemma read_oi_fits_loaded:
  assumes "codec_ok f"
  shows "read_oi_fits d2m m2d f pOi 0 =
     (if is_oi_fits_one (loaded_tables f)
      then map_option (Pair (close_status f)) (set_oi_header d2m m2d (loaded_tables f))
      else Some (close_status f, loaded_tables f))"
proof -
  have ok: "open_status f = 0" "target_status f = 0"
    "array_stop f = END_OF_FILE" "wavelength_stop f = END_OF_FILE"
    "corr_stop f = END_OF_FILE" "polar_stop f = END_OF_FILE"
    "vis_stop f = END_OF_FILE" "vis2_stop f = END_OF_FILE"
    "t3_stop f = END_OF_FILE" "spectrum_stop f = END_OF_FILE"
    using assms by (simp_all add: codec_ok_def)
  have "read_all_oi_spectrum (spectrum_tabs f)
         (read_all_oi_t3 (t3_tabs f)
           (read_all_oi_vis2 (vis2_tabs f)
             (read_all_oi_vis (vis_tabs f)
               (read_all_oi_polar (polar_tabs f)
                 (read_all_oi_corr (corr_tabs f)
                   (read_all_oi_wavelength (wavelength_tabs f)
                     (read_all_oi_array (array_tabs f)
                       (pOi\<lparr> arrayHash := g_hash_table_new_full,
                              wavelengthHash := g_hash_table_new_full,
                              corrHash := g_hash_table_new_full,
                              arrayList := [], wavelengthList := [], corrList := [],
                              polarList := [], visList := [], vis2List := [], t3List := [],
                              spectrumList := [], header := file_header f,
                              targets := file_targets f, numArray := 0 \<rparr>)
                       \<lparr>numWavelength := 0\<rparr>)
                     \<lparr>numCorr := 0\<rparr>)
                   \<lparr>numPolar := 0\<rparr>)
                 \<lparr>numVis := 0\<rparr>)
               \<lparr>numVis2 := 0\<rparr>)
             \<lparr>numT3 := 0\<rparr>)
           \<lparr>numSpectrum := 0\<rparr>)
        = loaded_tables f" (is "?L = _")
    by (simp add: read_all_oi_array_eq read_all_oi_wavelength_eq read_all_oi_corr_eq
        read_all_oi_polar_eq read_all_oi_vis_eq read_all_oi_vis2_eq read_all_oi_t3_eq
        read_all_oi_spectrum_eq loaded_tables_def find_oi_eta hash_names_simps
        g_hash_table_new_full_def)
  moreover have "read_oi_fits d2m m2d f pOi 0 =
     (if is_oi_fits_one ?L
      then map_option (Pair (close_status f)) (set_oi_header d2m m2d ?L)
      else Some (close_status f, ?L))"
    by (simp add: read_oi_fits_def ok Let_def map_option_case bind_eq_None_conv
        split: option.splits)
  ultimately show ?thesis by simp
qed

lemma lookup_hash_name:
  assumes "\<And>k. g_hash_table_lookup h k \<noteq> None \<Longrightarrow> g_hash_table_lookup h k = lookup_fn k"
  shows "g_hash_table_lookup (hash_name nonempty lookup_fn key h) k =
           (if k = key \<and> (nonempty \<longrightarrow> k \<noteq> []) then lookup_fn k else g_hash_table_lookup h k)"
  using assms [of key]
  by (auto simp: hash_name_def g_hash_table_lookup_def g_hash_table_insert_def
           split: option.splits)

lemma lookup_hash_names:
  assumes "\<And>k. g_hash_table_lookup h k \<noteq> None \<Longrightarrow> g_hash_table_lookup h k = lookup_fn k"
  shows "g_hash_table_lookup (hash_names nonempty lookup_fn keys h) k =
           (if k \<in> set keys \<and> (nonempty \<longrightarrow> k \<noteq> []) then lookup_fn k
            else g_hash_table_lookup h k)"
  using assms
proof (induction keys arbitrary: h)
  case Nil
  show ?case by (simp add: hash_names_simps)
next
  case (Cons key keys)
  have step: "g_hash_table_lookup (hash_name nonempty lookup_fn key h) k' =
           (if k' = key \<and> (nonempty \<longrightarrow> k' \<noteq> []) then lookup_fn k'
            else g_hash_table_lookup h k')" for k'
    by (rule lookup_hash_name) (rule Cons.prems)
  have inv: "g_hash_table_lookup (hash_name nonempty lookup_fn key h) k' = lookup_fn k'"
    if nn: "g_hash_table_lookup (hash_name nonempty lookup_fn key h) k' \<noteq> None" for k'
  proof (cases "k' = key \<and> (nonempty \<longrightarrow> k' \<noteq> [])")
    case True
    then show ?thesis by (auto simp: step)
  next
    case False
    then have e: "g_hash_table_lookup (hash_name nonempty lookup_fn key h) k'
                    = g_hash_table_lookup h k'"
      by (auto simp: step)
    with nn have "g_hash_table_lookup h k' \<noteq> None" by simp
    from Cons.prems [OF this] e show ?thesis by simp
  qed
  have "g_hash_table_lookup (hash_names nonempty lookup_fn (key # keys) h) k =
          g_hash_table_lookup (hash_names nonempty lookup_fn keys
            (hash_name nonempty lookup_fn key h)) k"
    by (simp add: hash_names_simps)
  also have "\<dots> = (if k \<in> set keys \<and> (nonempty \<longrightarrow> k \<noteq> []) then lookup_fn k
                   else g_hash_table_lookup (hash_name nonempty lookup_fn key h) k)"
    by (rule Cons.IH) (rule inv)
  also have "\<dots> = (if k \<in> set (key # keys) \<and> (nonempty \<longrightarrow> k \<noteq> []) then lookup_fn k
                   else g_hash_table_lookup h k)"
    unfolding step by auto
  finally show ?case .
qed

lemma lookup_empty: "g_hash_table_lookup Map.empty k = None"
  by (simp add: g_hash_table_lookup_def)

lemma counts_consistent_loaded:
  "codec_ok f \<Longrightarrow> counts_consistent (loaded_tables f)"
  by (simp add: codec_ok_def counts_consistent_def loaded_tables_def)

lemma is_oi_fits_one_header [simp]:
  "is_oi_fits_one (pOi\<lparr>header := h\<rparr>) = is_oi_fits_one pOi"
  by (simp add: is_oi_fits_one_def bad_tab_revision_iff)

lemma set_oi_header_only_header:
  assumes "counts_consistent pOi"
  shows "\<exists>h. set_oi_header d2m m2d pOi = Some (pOi\<lparr>header := h\<rparr>)"
  unfolding set_oi_header_Some [OF assms] by blast

lemma read_oi_fits_result:
  assumes "codec_ok f"
  shows "\<exists>h. read_oi_fits d2m m2d f pOi 0 = Some (close_status f, (loaded_tables f)\<lparr>header := h\<rparr>)
     \<and> (is_oi_fits_one (loaded_tables f) \<longrightarrow>
          set_oi_header d2m m2d (loaded_tables f) = Some ((loaded_tables f)\<lparr>header := h\<rparr>))
     \<and> (\<not> is_oi_fits_one (loaded_tables f) \<longrightarrow> h = file_header f)"
proof (cases "is_oi_fits_one (loaded_tables f)")
  case True
  obtain h where "set_oi_header d2m m2d (loaded_tables f) = Some ((loaded_tables f)\<lparr>header := h\<rparr>)"
    using set_oi_header_only_header [OF counts_consistent_loaded [OF assms]] by blast
  then show ?thesis
    using True by (auto simp: read_oi_fits_loaded [OF assms])
next
  case False
  have "(loaded_tables f)\<lparr>header := file_header f\<rparr> = loaded_tables f"
    by (simp add: loaded_tables_def)
  then show ?thesis
    using False by (auto simp: read_oi_fits_loaded [OF assms] intro!: exI [of _ "file_header f"])
qed

lemma codec_ok_examples: "codec_ok v1_file" "codec_ok mixed_file"
  by (simp_all add: codec_ok_def v1_file_def mixed_file_def target_Betelgeuse_def)

lemma is_oi_fits_one_v1_file: "is_oi_fits_one (loaded_tables v1_file)"
  by (simp add: is_oi_fits_one_def loaded_tables_def v1_file_def array_VLTI_def
      wavelength_GRAVITY_def vis_dated_def vis2_dated_def)

lemma not_is_oi_fits_one_mixed_file: "\<not> is_oi_fits_one (loaded_tables mixed_file)"
  by (simp add: is_oi_fits_one_def loaded_tables_def v1_file_def mixed_file_def)

lemma v1_file_mjds:
  "spec_parsed_mjds gregorian_date2mjd (spec_table_dates (loaded_tables v1_file)) = [58970, 58817]"
  by (simp add: spec_table_dates_def loaded_tables_def v1_file_def vis_dated_def
      vis2_dated_def spec_parsed_mjds_simps sscanf_date_examples gregorian_examples)

lemma v1_file_header:
  "set_oi_header gregorian_date2mjd gregorian_mjd2date (loaded_tables v1_file) =
     Some ((loaded_tables v1_file)
       \<lparr>header := empty_header\<lparr>origin := ''ESO'', telescop := ''VLTI'', instrume := ''GRAVITY'',
                   object := ''Betelgeuse'', oi_header.date_obs := ''2019-11-30''\<rparr>\<rparr>)"
proof -
  have m: "min_mjd gregorian_date2mjd (loaded_tables v1_file) = 58817"
    by (simp add: min_mjd_fold v1_file_mjds)
  have g: "g_strlcpy ''VLTI'' FLEN_VALUE = ''VLTI''" "g_strlcpy ''GRAVITY'' FLEN_VALUE = ''GRAVITY''"
    "g_strlcpy ''Betelgeuse'' FLEN_VALUE = ''Betelgeuse''"
    by (simp_all add: g_strlcpy_def FLEN_VALUE_def)
  show ?thesis
    unfolding set_oi_header_Some [OF counts_consistent_loaded [OF codec_ok_examples(1)]] m
    by (simp add: gregorian_examples g_snprintf_date_examples)
       (simp add: loaded_tables_def v1_file_def array_VLTI_def wavelength_GRAVITY_def
          target_Betelgeuse_def g empty_header_def)
qed

text \<open>
  C6.  When the codec reports no error, \<^verbatim>\<open>read_oi_fits\<close> returns the status of closing
  the file and a container that holds the target table and the tables of the file.  If this
  container passes \<^verbatim>\<open>is_oi_fits_one\<close>, it is the result of \<^verbatim>\<open>set_oi_header\<close> on the
  container with the header read from the file; if it does not, its header is the header
  read from the file.
\<close>

theorem read_oi_fits_backfill:
  assumes "codec_ok f"
  shows "\<exists>pOi'. read_oi_fits date2mjd mjd2date f pOi 0 = Some (close_status f, pOi')
     \<and> targets pOi' = file_targets f
     \<and> arrayList pOi' = array_tabs f \<and> wavelengthList pOi' = wavelength_tabs f
     \<and> corrList pOi' = corr_tabs f \<and> polarList pOi' = polar_tabs f
     \<and> visList pOi' = vis_tabs f \<and> vis2List pOi' = vis2_tabs f
     \<and> t3List pOi' = t3_tabs f \<and> spectrumList pOi' = spectrum_tabs f
     \<and> (is_oi_fits_one pOi' \<longrightarrow>
          set_oi_header date2mjd mjd2date (pOi'\<lparr>header := file_header f\<rparr>) = Some pOi')
     \<and> (\<not> is_oi_fits_one pOi' \<longrightarrow> header pOi' = file_header f)"
proof -
  obtain h where r: "read_oi_fits date2mjd mjd2date f pOi 0
        = Some (close_status f, (loaded_tables f)\<lparr>header := h\<rparr>)"
    and one: "is_oi_fits_one (loaded_tables f) \<Longrightarrow>
        set_oi_header date2mjd mjd2date (loaded_tables f) = Some ((loaded_tables f)\<lparr>header := h\<rparr>)"
    and other: "\<not> is_oi_fits_one (loaded_tables f) \<Longrightarrow> h = file_header f"
    using read_oi_fits_result [OF assms, of date2mjd mjd2date pOi] by blast
  have restore: "(loaded_tables f)\<lparr>header := h, header := file_header f\<rparr> = loaded_tables f"
    by (simp add: loaded_tables_def)
  show ?thesis
    using one other
    by (intro exI [of _ "(loaded_tables f)\<lparr>header := h\<rparr>"]) (simp add: r restore, simp add: loaded_tables_def)
qed

theorem read_oi_fits_backfill_witness:
  "codec_ok v1_file \<and> codec_ok mixed_file
   \<and> (\<exists>pOi'. read_oi_fits gregorian_date2mjd gregorian_mjd2date v1_file empty_fits 0 = Some (0, pOi')
        \<and> is_oi_fits_one pOi'
        \<and> header pOi' = empty_header\<lparr>origin := ''ESO'', telescop := ''VLTI'',
             instrume := ''GRAVITY'', object := ''Betelgeuse'',
             oi_header.date_obs := ''2019-11-30''\<rparr>)
   \<and> (\<exists>pOi'. read_oi_fits gregorian_date2mjd gregorian_mjd2date mixed_file empty_fits 0 = Some (0, pOi')
        \<and> \<not> is_oi_fits_one pOi'
        \<and> header pOi' = empty_header\<lparr>origin := ''ESO'', telescop := ''UT1''\<rparr>)"
proof -
  obtain p1 where p1: "read_oi_fits gregorian_date2mjd gregorian_mjd2date v1_file empty_fits 0
        = Some (close_status v1_file, p1)"
    "is_oi_fits_one p1 \<longrightarrow>
       set_oi_header gregorian_date2mjd gregorian_mjd2date (p1\<lparr>header := file_header v1_file\<rparr>)
         = Some p1"
    "targets p1 = file_targets v1_file"
    "arrayList p1 = array_tabs v1_file" "wavelengthList p1 = wavelength_tabs v1_file"
    "visList p1 = vis_tabs v1_file" "vis2List p1 = vis2_tabs v1_file" "t3List p1 = t3_tabs v1_file"
    using read_oi_fits_backfill [OF codec_ok_examples(1),
        of gregorian_date2mjd gregorian_mjd2date empty_fits] by blast
  obtain p2 where p2: "read_oi_fits gregorian_date2mjd gregorian_mjd2date mixed_file empty_fits 0
        = Some (close_status mixed_file, p2)"
    "\<not> is_oi_fits_one p2 \<longrightarrow> header p2 = file_header mixed_file"
    "targets p2 = file_targets mixed_file"
    using read_oi_fits_backfill [OF codec_ok_examples(2),
        of gregorian_date2mjd gregorian_mjd2date empty_fits] by blast
  have one: "is_oi_fits_one p1"
    by (simp add: is_oi_fits_one_def p1 v1_file_def array_VLTI_def
        wavelength_GRAVITY_def vis_dated_def vis2_dated_def)
  obtain h where h: "read_oi_fits gregorian_date2mjd gregorian_mjd2date v1_file empty_fits 0
        = Some (close_status v1_file, (loaded_tables v1_file)\<lparr>header := h\<rparr>)"
    using read_oi_fits_result [OF codec_ok_examples(1)] by blast
  from p1(1) h have eq: "p1 = (loaded_tables v1_file)\<lparr>header := h\<rparr>"
    by simp
  have "p1\<lparr>header := file_header v1_file\<rparr> = loaded_tables v1_file"
    unfolding eq by (simp add: loaded_tables_def)
  with p1(2) one v1_file_header
  have h1: "header p1 = empty_header\<lparr>origin := ''ESO'', telescop := ''VLTI'',
             instrume := ''GRAVITY'', object := ''Betelgeuse'',
             oi_header.date_obs := ''2019-11-30''\<rparr>"
    by auto
  have two: "\<not> is_oi_fits_one p2"
    by (simp add: is_oi_fits_one_def p2 mixed_file_def v1_file_def)
  with p2(2) have h2: "header p2 = empty_header\<lparr>origin := ''ESO'', telescop := ''UT1''\<rparr>"
    by (simp add: mixed_file_def v1_file_def)
  show ?thesis
    using p1(1) p2(1) one two h1 h2
    by (simp add: codec_ok_examples) (simp add: v1_file_def mixed_file_def)
qed

lemma lookup_hash_names_empty:
  "g_hash_table_lookup (hash_names nonempty lookup_fn keys Map.empty) k =
     (if k \<in> set keys \<and> (nonempty \<longrightarrow> k \<noteq> []) then lookup_fn k else None)"
  by (subst lookup_hash_names) (auto simp: lookup_empty)

text \<open>
  C8.  The three lookup functions return a pointer and nothing else; the container is
  their \<^verbatim>\<open>const\<close> argument.  A name that is not a key of the index is not found.  The
  loader changes an index only for a name whose lookup finds no table; for a name that is
  a key already and whose table is still missing the index stays as it is; and entering a
  name twice is the same as entering it once.  After a load without codec error the
  container holds the tables of the file, in the order of the file.  A lookup then finds
  nothing for a name that no measurement table of the file refers to, and for every other
  name it yields the first table of that name in the list, whichever and however many
  measurement tables refer to it; an empty array or correlation name is never entered.
\<close>

theorem name_index_lookup:
  "(arrname' \<notin> dom (arrayHash pOi) \<longrightarrow> oi_fits_lookup_array pOi arrname' = None)
   \<and> (insname' \<notin> dom (wavelengthHash pOi) \<longrightarrow> oi_fits_lookup_wavelength pOi insname' = None)
   \<and> (corrname' \<notin> dom (corrHash pOi) \<longrightarrow> oi_fits_lookup_corr pOi corrname' = None)
   \<and> (oi_fits_lookup_array pOi arrname' \<noteq> None \<longrightarrow> hash_array arrname' pOi = pOi)
   \<and> (oi_fits_lookup_wavelength pOi insname' \<noteq> None \<longrightarrow> hash_wavelength insname' pOi = pOi)
   \<and> (oi_fits_lookup_corr pOi corrname' \<noteq> None \<longrightarrow> hash_corr corrname' pOi = pOi)
   \<and> (arrname' \<in> dom (arrayHash pOi) \<and> find_oi_array pOi arrname' = None
        \<longrightarrow> hash_array arrname' pOi = pOi)
   \<and> (insname' \<in> dom (wavelengthHash pOi) \<and> find_oi_wavelength pOi insname' = None
        \<longrightarrow> hash_wavelength insname' pOi = pOi)
   \<and> (corrname' \<in> dom (corrHash pOi) \<and> find_oi_corr pOi corrname' = None
        \<longrightarrow> hash_corr corrname' pOi = pOi)
   \<and> hash_array arrname' (hash_array arrname' pOi) = hash_array arrname' pOi
   \<and> hash_wavelength insname' (hash_wavelength insname' pOi) = hash_wavelength insname' pOi
   \<and> hash_corr corrname' (hash_corr corrname' pOi) = hash_corr corrname' pOi
   \<and> (codec_ok f \<longrightarrow>
        (\<exists>pOi'. read_oi_fits date2mjd mjd2date f pOi 0 = Some (close_status f, pOi')
           \<and> arrayList pOi' = array_tabs f \<and> wavelengthList pOi' = wavelength_tabs f
           \<and> corrList pOi' = corr_tabs f
           \<and> visList pOi' = vis_tabs f \<and> vis2List pOi' = vis2_tabs f
           \<and> t3List pOi' = t3_tabs f \<and> spectrumList pOi' = spectrum_tabs f
           \<and> (\<forall>n. oi_fits_lookup_array pOi' n =
                  (if n \<noteq> [] \<and> n \<in> set (measured_arrnames pOi') then find_oi_array pOi' n
                   else None))
           \<and> (\<forall>n. oi_fits_lookup_wavelength pOi' n =
                  (if n \<in> set (measured_insnames pOi') then find_oi_wavelength pOi' n
                   else None))
           \<and> (\<forall>n. oi_fits_lookup_corr pOi' n =
                  (if n \<noteq> [] \<and> n \<in> set (measured_corrnames pOi') then find_oi_corr pOi' n
                   else None))
           \<and> (\<forall>n. oi_fits_lookup_array pOi' n =
                  (if n \<noteq> []
                      \<and> n \<in> set (map oi_vis.arrname (vis_tabs f) @ map oi_vis2.arrname (vis2_tabs f)
                            @ map oi_t3.arrname (t3_tabs f)
                            @ map oi_spectrum.arrname (spectrum_tabs f))
                   then find_link oi_array.arrname (array_tabs f) n 0 else None))
           \<and> (\<forall>n. oi_fits_lookup_wavelength pOi' n =
                  (if n \<in> set (map oi_vis.insname (vis_tabs f) @ map oi_vis2.insname (vis2_tabs f)
                            @ map oi_t3.insname (t3_tabs f)
                            @ map oi_spectrum.insname (spectrum_tabs f))
                   then find_link oi_wavelength.insname (wavelength_tabs f) n 0 else None))
           \<and> (\<forall>n. oi_fits_lookup_corr pOi' n =
                  (if n \<noteq> []
                      \<and> n \<in> set (map oi_vis.corrname (vis_tabs f)
                            @ map oi_vis2.corrname (vis2_tabs f)
                            @ map oi_t3.corrname (t3_tabs f))
                   then find_link oi_corr.corrname (corr_tabs f) n 0 else None))))"
proof -
  have absent: "arrname' \<notin> dom (arrayHash pOi) \<longrightarrow> oi_fits_lookup_array pOi arrname' = None"
    "insname' \<notin> dom (wavelengthHash pOi) \<longrightarrow> oi_fits_lookup_wavelength pOi insname' = None"
    "corrname' \<notin> dom (corrHash pOi) \<longrightarrow> oi_fits_lookup_corr pOi corrname' = None"
    by (auto simp: oi_fits_lookup_array_def oi_fits_lookup_wavelength_def
        oi_fits_lookup_corr_def g_hash_table_lookup_def split: option.splits)
  have present: "oi_fits_lookup_array pOi arrname' \<noteq> None \<longrightarrow> hash_array arrname' pOi = pOi"
    "oi_fits_lookup_wavelength pOi insname' \<noteq> None \<longrightarrow> hash_wavelength insname' pOi = pOi"
    "oi_fits_lookup_corr pOi corrname' \<noteq> None \<longrightarrow> hash_corr corrname' pOi = pOi"
    by (simp_all add: oi_fits_lookup_array_def oi_fits_lookup_wavelength_def
        oi_fits_lookup_corr_def hash_array_def hash_wavelength_def hash_corr_def)
  have keep: "hash_name ne fn k h = h" if "k \<in> dom h" "fn k = None" for ne fn k and h :: GHashTable
    using that
    by (auto simp: hash_name_def g_hash_table_lookup_def g_hash_table_insert_def fun_eq_iff
        split: option.splits)
  have dangling: "arrname' \<in> dom (arrayHash pOi) \<and> find_oi_array pOi arrname' = None
        \<longrightarrow> hash_array arrname' pOi = pOi"
    "insname' \<in> dom (wavelengthHash pOi) \<and> find_oi_wavelength pOi insname' = None
        \<longrightarrow> hash_wavelength insname' pOi = pOi"
    "corrname' \<in> dom (corrHash pOi) \<and> find_oi_corr pOi corrname' = None
        \<longrightarrow> hash_corr corrname' pOi = pOi"
    by (simp_all add: hash_array_eq hash_wavelength_eq hash_corr_eq keep)
  have idem: "hash_name ne fn k (hash_name ne fn k h) = hash_name ne fn k h" for ne fn k h
    by (auto simp: hash_name_def g_hash_table_lookup_def g_hash_table_insert_def
        split: option.splits)
  have twice: "hash_array arrname' (hash_array arrname' pOi) = hash_array arrname' pOi"
    "hash_wavelength insname' (hash_wavelength insname' pOi) = hash_wavelength insname' pOi"
    "hash_corr corrname' (hash_corr corrname' pOi) = hash_corr corrname' pOi"
    by (simp_all add: hash_array_eq hash_wavelength_eq hash_corr_eq find_oi_eta idem)
  have loaded: "\<exists>pOi'. read_oi_fits date2mjd mjd2date f pOi 0 = Some (close_status f, pOi')
           \<and> arrayList pOi' = array_tabs f \<and> wavelengthList pOi' = wavelength_tabs f
           \<and> corrList pOi' = corr_tabs f
           \<and> visList pOi' = vis_tabs f \<and> vis2List pOi' = vis2_tabs f
           \<and> t3List pOi' = t3_tabs f \<and> spectrumList pOi' = spectrum_tabs f
           \<and> (\<forall>n. oi_fits_lookup_array pOi' n =
                  (if n \<noteq> [] \<and> n \<in> set (measured_arrnames pOi') then find_oi_array pOi' n
                   else None))
           \<and> (\<forall>n. oi_fits_lookup_wavelength pOi' n =
                  (if n \<in> set (measured_insnames pOi') then find_oi_wavelength pOi' n
                   else None))
           \<and> (\<forall>n. oi_fits_lookup_corr pOi' n =
                  (if n \<noteq> [] \<and> n \<in> set (measured_corrnames pOi') then find_oi_corr pOi' n
                   else None))
           \<and> (\<forall>n. oi_fits_lookup_array pOi' n =
                  (if n \<noteq> []
                      \<and> n \<in> set (map oi_vis.arrname (vis_tabs f) @ map oi_vis2.arrname (vis2_tabs f)
                            @ map oi_t3.arrname (t3_tabs f)
                            @ map oi_spectrum.arrname (spectrum_tabs f))
                   then find_link oi_array.arrname (array_tabs f) n 0 else None))
           \<and> (\<forall>n. oi_fits_lookup_wavelength pOi' n =
                  (if n \<in> set (map oi_vis.insname (vis_tabs f) @ map oi_vis2.insname (vis2_tabs f)
                            @ map oi_t3.insname (t3_tabs f)
                            @ map oi_spectrum.insname (spectrum_tabs f))
                   then find_link oi_wavelength.insname (wavelength_tabs f) n 0 else None))
           \<and> (\<forall>n. oi_fits_lookup_corr pOi' n =
                  (if n \<noteq> []
                      \<and> n \<in> set (map oi_vis.corrname (vis_tabs f)
                            @ map oi_vis2.corrname (vis2_tabs f)
                            @ map oi_t3.corrname (t3_tabs f))
                   then find_link oi_corr.corrname (corr_tabs f) n 0 else None))"
    if ok: "codec_ok f"
  proof -
    obtain h where r: "read_oi_fits date2mjd mjd2date f pOi 0
          = Some (close_status f, (loaded_tables f)\<lparr>header := h\<rparr>)"
      using read_oi_fits_result [OF ok] by blast
    let ?L = "(loaded_tables f)\<lparr>header := h\<rparr>"
    have lists: "arrayList ?L = array_tabs f" "wavelengthList ?L = wavelength_tabs f"
      "corrList ?L = corr_tabs f" "visList ?L = vis_tabs f" "vis2List ?L = vis2_tabs f"
      "t3List ?L = t3_tabs f" "spectrumList ?L = spectrum_tabs f"
      by (simp_all add: loaded_tables_def)
    have a: "oi_fits_lookup_array ?L n =
        (if n \<noteq> [] \<and> n \<in> set (measured_arrnames ?L) then find_oi_array ?L n else None)" for n
      by (simp add: oi_fits_lookup_array_def loaded_tables_def measured_arrnames_def
          find_oi_array_def lookup_hash_names_empty)
    have w: "oi_fits_lookup_wavelength ?L n =
        (if n \<in> set (measured_insnames ?L) then find_oi_wavelength ?L n else None)" for n
      by (simp add: oi_fits_lookup_wavelength_def loaded_tables_def measured_insnames_def
          find_oi_wavelength_def lookup_hash_names_empty)
    have c: "oi_fits_lookup_corr ?L n =
        (if n \<noteq> [] \<and> n \<in> set (measured_corrnames ?L) then find_oi_corr ?L n else None)" for n
      by (simp add: oi_fits_lookup_corr_def loaded_tables_def measured_corrnames_def
          find_oi_corr_def lookup_hash_names_empty)
    have a': "oi_fits_lookup_array ?L n =
        (if n \<noteq> []
            \<and> n \<in> set (map oi_vis.arrname (vis_tabs f) @ map oi_vis2.arrname (vis2_tabs f)
                  @ map oi_t3.arrname (t3_tabs f) @ map oi_spectrum.arrname (spectrum_tabs f))
         then find_link oi_array.arrname (array_tabs f) n 0 else None)" for n
      by (simp add: oi_fits_lookup_array_def loaded_tables_def lookup_hash_names_empty)
    have w': "oi_fits_lookup_wavelength ?L n =
        (if n \<in> set (map oi_vis.insname (vis_tabs f) @ map oi_vis2.insname (vis2_tabs f)
                  @ map oi_t3.insname (t3_tabs f) @ map oi_spectrum.insname (spectrum_tabs f))
         then find_link oi_wavelength.insname (wavelength_tabs f) n 0 else None)" for n
      by (simp add: oi_fits_lookup_wavelength_def loaded_tables_def lookup_hash_names_empty)
    have c': "oi_fits_lookup_corr ?L n =
        (if n \<noteq> []
            \<and> n \<in> set (map oi_vis.corrname (vis_tabs f) @ map oi_vis2.corrname (vis2_tabs f)
                  @ map oi_t3.corrname (t3_tabs f))
         then find_link oi_corr.corrname (corr_tabs f) n 0 else None)" for n
      by (simp add: oi_fits_lookup_corr_def loaded_tables_def lookup_hash_names_empty)
    show ?thesis
      apply (rule exI [of _ ?L])
      apply (intro conjI allI)
      apply (rule r)
      apply (rule lists)+
      apply (rule a)
      apply (rule w)
      apply (rule c)
      apply (rule a')
      apply (rule w')
      apply (rule c')
      done
  qed
  show ?thesis
    apply (intro conjI)
    apply (rule absent)+
    apply (rule present)+
    apply (rule dangling)+
    apply (rule twice)+
    apply (rule impI)
    apply (erule loaded)
    done
qed

theorem name_index_lookup_witness:
  "codec_ok mixed_file
   \<and> (\<exists>pOi'. read_oi_fits gregorian_date2mjd gregorian_mjd2date mixed_file empty_fits 0 = Some (0, pOi')
        \<and> visList pOi' = [vis_dated ''2020-05-01''] \<and> vis2List pOi' = [vis2_dated ''2019-11-30'']
        \<and> oi_vis.arrname (vis_dated ''2020-05-01'') = ''VLTI''
        \<and> oi_vis2.arrname (vis2_dated ''2019-11-30'') = ''VLTI''
        \<and> oi_fits_lookup_array pOi' ''VLTI'' = Some 1
        \<and> oi_fits_lookup_array pOi' ''CHARA'' = None
        \<and> oi_fits_lookup_array pOi' ''NPOI'' = None
        \<and> oi_fits_lookup_wavelength pOi' ''GRAVITY'' = Some 0
        \<and> oi_fits_lookup_corr pOi' [] = None)"
proof -
  obtain p where p: "read_oi_fits gregorian_date2mjd gregorian_mjd2date mixed_file empty_fits 0
        = Some (close_status mixed_file, p)"
    and l: "arrayList p = array_tabs mixed_file" "wavelengthList p = wavelength_tabs mixed_file"
      "visList p = vis_tabs mixed_file" "vis2List p = vis2_tabs mixed_file"
      "t3List p = t3_tabs mixed_file" "spectrumList p = spectrum_tabs mixed_file"
    and a: "\<And>n. oi_fits_lookup_array p n =
        (if n \<noteq> [] \<and> n \<in> set (measured_arrnames p) then find_oi_array p n else None)"
    and w: "\<And>n. oi_fits_lookup_wavelength p n =
        (if n \<in> set (measured_insnames p) then find_oi_wavelength p n else None)"
    and c: "\<And>n. oi_fits_lookup_corr p n =
        (if n \<noteq> [] \<and> n \<in> set (measured_corrnames p) then find_oi_corr p n else None)"
    using name_index_lookup [where f = mixed_file and pOi = empty_fits
        and ?date2mjd = gregorian_date2mjd and ?mjd2date = gregorian_mjd2date,
        THEN conjunct2, THEN conjunct2, THEN conjunct2, THEN conjunct2, THEN conjunct2,
        THEN conjunct2, THEN conjunct2, THEN conjunct2, THEN conjunct2, THEN conjunct2,
        THEN conjunct2, THEN conjunct2, THEN mp, OF codec_ok_examples(2)]
    by blast
  have names: "measured_arrnames p = [''VLTI'', ''VLTI'', ''NPOI'']"
    "measured_insnames p = [''GRAVITY'', ''GRAVITY'', ''GRAVITY'']"
    by (simp_all add: measured_arrnames_def measured_insnames_def l
        mixed_file_def v1_file_def vis_dated_def vis2_dated_def t3_dated_def)
  have finds: "find_oi_array p ''VLTI'' = Some 1" "find_oi_array p ''NPOI'' = None"
    "find_oi_wavelength p ''GRAVITY'' = Some 0"
    by (simp_all add: find_oi_array_def find_oi_wavelength_def l
        mixed_file_def v1_file_def array_VLTI_def wavelength_GRAVITY_def)
  have "oi_fits_lookup_array p ''VLTI'' = Some 1" "oi_fits_lookup_array p ''CHARA'' = None"
    "oi_fits_lookup_array p ''NPOI'' = None" "oi_fits_lookup_wavelength p ''GRAVITY'' = Some 0"
    "oi_fits_lookup_corr p [] = None"
    by (simp_all add: a w c names finds)
  moreover have "visList p = [vis_dated ''2020-05-01'']" "vis2List p = [vis2_dated ''2019-11-30'']"
    by (simp_all add: l mixed_file_def v1_file_def)
  moreover have "oi_vis.arrname (vis_dated ''2020-05-01'') = ''VLTI''"
    "oi_vis2.arrname (vis2_dated ''2019-11-30'') = ''VLTI''"
    by (simp_all add: vis_dated_def vis2_dated_def)
  ultimately show ?thesis
    using p by (simp add: codec_ok_examples) (simp add: mixed_file_def v1_file_def)
qed

end
